theory Spec2Isabelle
  imports Main
begin

section \<open>Python values used by the statsd client\<close>

text \<open>
  The client (\<^verbatim>\<open>statsd/client.py\<close>) formats numbers into protocol lines, compares
  sample rates and raises or swallows exceptions. The values it handles are modelled
  as follows.

  A Python \<^verbatim>\<open>int\<close> is an unbounded \<open>int\<close>. A Python \<^verbatim>\<open>float\<close> is an IEEE double, kept
  by its exact value: \<open>Finite s m e\<close> is \<open>(-1)^s * m * 2^e\<close>, next to the infinities
  and NaN. Comparisons and the \<^verbatim>\<open>%0.6f\<close> conversion are exact functions of that value.
  A Python string is a \<open>string\<close>; each \<open>char\<close> stands for the code point of the
  same number, so a character is ASCII when its code is below 128.
\<close>

datatype pyfloat = Finite bool nat int | Infinity bool | NaN

datatype pynum = PyInt int | PyFloat pyfloat

datatype pyval = Num pynum | Str string

text \<open>
  The exceptions that occur. \<open>SocketError\<close>, \<open>SocketTimeout\<close> and \<open>GaiError\<close> are
  \<^verbatim>\<open>socket.error\<close> and its subclasses \<^verbatim>\<open>socket.timeout\<close> and \<^verbatim>\<open>socket.gaierror\<close>;
  \<open>NotImplementedError\<close> is a subclass of \<^verbatim>\<open>RuntimeError\<close>; \<open>UnicodeEncodeError\<close> is a
  subclass of \<^verbatim>\<open>ValueError\<close>; \<open>OtherError\<close> is any exception unrelated to these
  classes, named by its text.
\<close>

datatype exn =
    SocketError
  | SocketTimeout
  | GaiError
  | RuntimeError string
  | NotImplementedError
  | UnicodeEncodeError
  | ValueError
  | OverflowError
  | IndexError
  | OtherError string

fun is_socket_error :: "exn \<Rightarrow> bool" where
  "is_socket_error SocketError = True"
| "is_socket_error SocketTimeout = True"
| "is_socket_error GaiError = True"
| "is_socket_error _ = False"

fun is_RuntimeError :: "exn \<Rightarrow> bool" where
  "is_RuntimeError (RuntimeError _) = True"
| "is_RuntimeError NotImplementedError = True"
| "is_RuntimeError _ = False"

subsection \<open>Comparison and negation of numbers\<close>

text \<open>
  Python compares an \<^verbatim>\<open>int\<close> with a \<^verbatim>\<open>float\<close> by exact value; every comparison with
  NaN is false. \<open>dyadic\<close> gives the finite value of a number as a signed mantissa and
  a binary exponent.
\<close>

fun dyadic :: "pynum \<Rightarrow> (int \<times> int) option" where
  "dyadic (PyInt n) = Some (n, 0)"
| "dyadic (PyFloat (Finite s m e)) = Some (if s then - int m else int m, e)"
| "dyadic (PyFloat (Infinity s)) = None"
| "dyadic (PyFloat NaN) = None"

definition dyadic_less :: "int \<times> int \<Rightarrow> int \<times> int \<Rightarrow> bool" where
  "dyadic_less a b =
     (let k = min (snd a) (snd b)
      in fst a * 2 ^ nat (snd a - k) < fst b * 2 ^ nat (snd b - k))"

definition dyadic_eq :: "int \<times> int \<Rightarrow> int \<times> int \<Rightarrow> bool" where
  "dyadic_eq a b =
     (let k = min (snd a) (snd b)
      in fst a * 2 ^ nat (snd a - k) = fst b * 2 ^ nat (snd b - k))"

fun py_lt :: "pynum \<Rightarrow> pynum \<Rightarrow> bool" where
  "py_lt (PyFloat NaN) b = False"
| "py_lt a (PyFloat NaN) = False"
| "py_lt (PyFloat (Infinity s)) (PyFloat (Infinity t)) = (s \<and> \<not> t)"
| "py_lt (PyFloat (Infinity s)) b = s"
| "py_lt a (PyFloat (Infinity t)) = (\<not> t)"
| "py_lt a b =
     (case (dyadic a, dyadic b) of
        (Some x, Some y) \<Rightarrow> dyadic_less x y
      | _ \<Rightarrow> False)"

definition py_gt :: "pynum \<Rightarrow> pynum \<Rightarrow> bool" where
  "py_gt a b = py_lt b a"

fun py_eq :: "pynum \<Rightarrow> pynum \<Rightarrow> bool" where
  "py_eq (PyFloat NaN) b = False"
| "py_eq a (PyFloat NaN) = False"
| "py_eq (PyFloat (Infinity s)) (PyFloat (Infinity t)) = (s = t)"
| "py_eq (PyFloat (Infinity s)) b = False"
| "py_eq a (PyFloat (Infinity t)) = False"
| "py_eq a b =
     (case (dyadic a, dyadic b) of
        (Some x, Some y) \<Rightarrow> dyadic_eq x y
      | _ \<Rightarrow> False)"

text \<open>Unary minus, \<^verbatim>\<open>-count\<close>: exact on an \<^verbatim>\<open>int\<close>, a flip of the sign bit on a \<^verbatim>\<open>float\<close>.\<close>

fun py_neg :: "pynum \<Rightarrow> pynum" where
  "py_neg (PyInt n) = PyInt (- n)"
| "py_neg (PyFloat (Finite s m e)) = PyFloat (Finite (\<not> s) m e)"
| "py_neg (PyFloat (Infinity s)) = PyFloat (Infinity (\<not> s))"
| "py_neg (PyFloat NaN) = PyFloat NaN"

subsection \<open>Decimal text of numbers\<close>

definition digit_char :: "nat \<Rightarrow> char" where
  "digit_char d = ''0123456789'' ! d"

fun nat_str :: "nat \<Rightarrow> string" where
  "nat_str n = (if n < 10 then [digit_char n] else nat_str (n div 10) @ [digit_char (n mod 10)])"

declare nat_str.simps [simp del]

text \<open>\<^verbatim>\<open>'%s' % n\<close> for an \<^verbatim>\<open>int\<close>: plain decimal digits, a leading minus when negative.\<close>

definition int_str :: "int \<Rightarrow> string" where
  "int_str i = (if i < 0 then CHR ''-'' # nat_str (nat (- i)) else nat_str (nat i))"

text \<open>The six digits after the point of a number of millionths below one million.\<close>

definition frac6 :: "nat \<Rightarrow> string" where
  "frac6 n =
     [digit_char (n div 100000 mod 10), digit_char (n div 10000 mod 10),
      digit_char (n div 1000 mod 10), digit_char (n div 100 mod 10),
      digit_char (n div 10 mod 10), digit_char (n mod 10)]"

fun bit_length :: "nat \<Rightarrow> nat" where
  "bit_length n = (if n = 0 then 0 else Suc (bit_length (n div 2)))"

declare bit_length.simps [simp del]

text \<open>
  Rounding to the nearest integer, ties to the even one, of \<open>num / den\<close>: the rounding
  of IEEE arithmetic and of Python's float formatting.
\<close>

definition round_half_even :: "nat \<Rightarrow> nat \<Rightarrow> nat" where
  "round_half_even num den =
     (let q = num div den; r = num mod den
      in if 2 * r > den \<or> (2 * r = den \<and> odd q) then q + 1 else q)"

text \<open>
  The conversion of an \<^verbatim>\<open>int\<close> to a \<^verbatim>\<open>float\<close> that \<^verbatim>\<open>%f\<close> performs on an \<^verbatim>\<open>int\<close> argument:
  exact up to 53 bits, rounded to 53 significant bits (ties to even) beyond, and
  \<^verbatim>\<open>OverflowError\<close> when the rounded value reaches \<open>2^1024\<close>.
\<close>

definition int_to_float :: "int \<Rightarrow> exn + pyfloat" where
  "int_to_float n =
     (let s = (n < 0); a = nat \<bar>n\<bar>; bl = bit_length a
      in if bl \<le> 53 then Inr (Finite s a 0)
         else
           (let sh = bl - 53; q = round_half_even a (2 ^ sh)
            in if q * 2 ^ sh \<ge> 2 ^ 1024 then Inl OverflowError
               else Inr (Finite s q (int sh))))"

text \<open>
  \<^verbatim>\<open>'%0.6f' % x\<close> for a \<^verbatim>\<open>float\<close> \<open>x\<close>: the exact value rounded to a whole number of
  millionths (ties to even), printed as integer digits, a point and six digits; the
  sign is printed when the sign bit is set. Infinities and NaN print as words.
\<close>

fun float_f6 :: "pyfloat \<Rightarrow> string" where
  "float_f6 (Finite s m e) =
     (let n = (if e \<ge> 0 then m * 2 ^ nat e * 1000000
               else round_half_even (m * 1000000) (2 ^ nat (- e)))
      in (if s then ''-'' else '''') @ nat_str (n div 1000000) @ ''.'' @ frac6 (n mod 1000000))"
| "float_f6 (Infinity s) = (if s then ''-inf'' else ''inf'')"
| "float_f6 NaN = ''nan''"

fun fmt_f6 :: "pynum \<Rightarrow> exn + string" where
  "fmt_f6 (PyInt n) = (case int_to_float n of Inl err \<Rightarrow> Inl err | Inr x \<Rightarrow> Inr (float_f6 x))"
| "fmt_f6 (PyFloat x) = Inr (float_f6 x)"

section \<open>The runtime and the world outside the client\<close>

text \<open>
  What the client takes from the Python runtime and the operating system is a
  parameter of the model, a record of functions:
  \<^item> \<open>rand_source k\<close> is what the \<open>k\<close>-th call of \<^verbatim>\<open>random.random()\<close> returns (a float in
    \<open>[0,1)\<close>; the repository's tests replace it by constants such as \<open>-1\<close> and \<open>2\<close>);
  \<^item> \<open>clock k\<close> is the \<open>k\<close>-th reading of \<^verbatim>\<open>time_now()\<close>;
  \<^item> \<open>os_sendto k sock bytes addr\<close> is the outcome of the \<open>k\<close>-th call of
    \<^verbatim>\<open>sock.sendto(bytes, addr)\<close>: \<open>None\<close> when it returns, \<open>Some err\<close> when it raises;
  \<^item> \<open>resolver\<close> is \<^verbatim>\<open>socket.getaddrinfo\<close>, \<open>os_socket\<close> the outcome of \<^verbatim>\<open>socket.socket\<close>;
  \<^item> \<open>float_repr\<close> is \<^verbatim>\<open>str\<close> of a float, \<open>float_sub\<close> and \<open>float_mul\<close> are float
    subtraction and multiplication.
\<close>

datatype family = AF_INET | AF_INET6

datatype socktype = SOCK_DGRAM | SOCK_STREAM

datatype sockaddr = Addr4 string int | Addr6 string int int int

type_synonym addrinfo = "family \<times> socktype \<times> int \<times> string \<times> sockaddr"

record runtime =
  rand_source :: "nat \<Rightarrow> pynum"
  clock :: "nat \<Rightarrow> pyfloat"
  os_sendto :: "nat \<Rightarrow> nat \<Rightarrow> string \<Rightarrow> sockaddr \<Rightarrow> exn option"
  resolver :: "string \<Rightarrow> int \<Rightarrow> family \<Rightarrow> socktype \<Rightarrow> exn + addrinfo list"
  os_socket :: "nat \<Rightarrow> family \<Rightarrow> socktype \<Rightarrow> exn option"
  float_repr :: "pyfloat \<Rightarrow> string"
  float_sub :: "pyfloat \<Rightarrow> pyfloat \<Rightarrow> pyfloat"
  float_mul :: "pyfloat \<Rightarrow> pyfloat \<Rightarrow> pyfloat"

text \<open>
  The state the code changes outside its own objects: how many random numbers and
  clock readings were drawn, the calls of \<^verbatim>\<open>sendto\<close> made so far (socket, payload,
  address, as the tests' mock socket records them), the calls of \<^verbatim>\<open>getaddrinfo\<close>, the
  sockets opened (a socket is known by its position in that list), and the number of
  \<^verbatim>\<open>Timer\<close> objects constructed.
\<close>

record world =
  random_calls :: nat
  clock_calls :: nat
  sendto_calls :: "(nat \<times> string \<times> sockaddr) list"
  getaddrinfo_calls :: "(string \<times> int \<times> family \<times> socktype) list"
  sockets :: "(family \<times> socktype) list"
  timers_created :: nat

definition random_random :: "runtime \<Rightarrow> world \<Rightarrow> pynum \<times> world" where
  "random_random rt w = (rand_source rt (random_calls w), w\<lparr>random_calls := Suc (random_calls w)\<rparr>)"

definition time_now :: "runtime \<Rightarrow> world \<Rightarrow> pyfloat \<times> world" where
  "time_now rt w = (clock rt (clock_calls w), w\<lparr>clock_calls := Suc (clock_calls w)\<rparr>)"

text \<open>\<^verbatim>\<open>'%s' % v\<close>: the text of a number or of a string.\<close>

fun py_str :: "runtime \<Rightarrow> pynum \<Rightarrow> string" where
  "py_str rt (PyInt n) = int_str n"
| "py_str rt (PyFloat x) = float_repr rt x"

fun py_str_val :: "runtime \<Rightarrow> pyval \<Rightarrow> string" where
  "py_str_val rt (Num n) = py_str rt n"
| "py_str_val rt (Str s) = s"

text \<open>\<^verbatim>\<open>data.encode('ascii')\<close>: the same characters as bytes, or \<^verbatim>\<open>UnicodeEncodeError\<close>.\<close>

definition is_ascii :: "string \<Rightarrow> bool" where
  "is_ascii s = list_all (\<lambda>c. (of_char c :: nat) < 128) s"

definition encode_ascii :: "string \<Rightarrow> exn + string" where
  "encode_ascii data = (if is_ascii data then Inr data else Inl UnicodeEncodeError)"

section \<open>The client\<close>

text \<open>
  \<^verbatim>\<open>StatsClient\<close> with the attributes its constructor sets. \<open>sc_prefix\<close> is \<^verbatim>\<open>_prefix\<close>:
  \<open>None\<close> for Python's \<^verbatim>\<open>None\<close>.
\<close>

record StatsClient =
  sc_addr :: sockaddr
  sc_sock :: nat
  sc_prefix :: "string option"
  sc_maxudpsize :: int

text \<open>
  \<^verbatim>\<open>StatsClient.__init__\<close>: the family asked of \<^verbatim>\<open>getaddrinfo\<close> is the constant
  \<^verbatim>\<open>socket.AF_INET\<close>; the first entry of the answer gives the family of the socket and
  the address. An empty answer makes the subscript \<^verbatim>\<open>[0]\<close> raise.
\<close>

definition StatsClient_init ::
  "runtime \<Rightarrow> string \<Rightarrow> int \<Rightarrow> string option \<Rightarrow> int \<Rightarrow> world \<Rightarrow> (exn + StatsClient) \<times> world" where
  "StatsClient_init rt host port prefix maxudpsize w =
     (let fam = AF_INET;
          w1 = w\<lparr>getaddrinfo_calls := getaddrinfo_calls w @ [(host, port, fam, SOCK_DGRAM)]\<rparr>
      in case resolver rt host port fam SOCK_DGRAM of
           Inl err \<Rightarrow> (Inl err, w1)
         | Inr [] \<Rightarrow> (Inl IndexError, w1)
         | Inr ((family, _, _, _, addr) # _) \<Rightarrow>
             (case os_socket rt (length (sockets w1)) family SOCK_DGRAM of
                Some err \<Rightarrow> (Inl err, w1)
              | None \<Rightarrow>
                 (Inr \<lparr>sc_addr = addr, sc_sock = length (sockets w1),
                       sc_prefix = prefix, sc_maxudpsize = maxudpsize\<rparr>,
                  w1\<lparr>sockets := sockets w1 @ [(family, SOCK_DGRAM)]\<rparr>)))"

text \<open>
  \<^verbatim>\<open>StatsClient._send\<close>: the encoding and the call of \<^verbatim>\<open>sendto\<close> stand inside the
  \<^verbatim>\<open>try\<close>; the handler \<^verbatim>\<open>except (socket.error, RuntimeError)\<close> swallows exceptions of
  these two classes and no other.
\<close>

definition StatsClient_send ::
  "runtime \<Rightarrow> StatsClient \<Rightarrow> string \<Rightarrow> world \<Rightarrow> (exn + unit) \<times> world" where
  "StatsClient_send rt self data w =
     (case encode_ascii data of
        Inl err \<Rightarrow> (if is_socket_error err \<or> is_RuntimeError err then (Inr (), w) else (Inl err, w))
      | Inr bytes \<Rightarrow>
          (let w1 = w\<lparr>sendto_calls := sendto_calls w @ [(sc_sock self, bytes, sc_addr self)]\<rparr>
           in case os_sendto rt (length (sendto_calls w)) (sc_sock self) bytes (sc_addr self) of
                None \<Rightarrow> (Inr (), w1)
              | Some err \<Rightarrow>
                  (if is_socket_error err \<or> is_RuntimeError err then (Inr (), w1) else (Inl err, w1))))"

text \<open>
  \<^verbatim>\<open>StatsClientBase._prepare\<close>. The test \<^verbatim>\<open>if self._prefix\<close> is Python's truth test: a
  prefix that is \<^verbatim>\<open>None\<close> or the empty string is not prepended.
\<close>

definition prepare ::
  "runtime \<Rightarrow> StatsClient \<Rightarrow> string \<Rightarrow> string \<Rightarrow> pynum \<Rightarrow> world \<Rightarrow> string option \<times> world" where
  "prepare rt self stat value rate w =
     (let (sampled, w1) =
            (if py_lt rate (PyInt 1) then
               (let (u, w') = random_random rt w
                in if py_gt u rate then (None, w')
                   else (Some (value @ ''|@'' @ py_str rt rate), w'))
             else (Some value, w))
      in case sampled of
           None \<Rightarrow> (None, w1)
         | Some value' \<Rightarrow>
             (let stat' = (case sc_prefix self of
                             None \<Rightarrow> stat
                           | Some p \<Rightarrow> if p \<noteq> [] then p @ ''.'' @ stat else stat)
              in (Some (stat' @ '':'' @ value'), w1)))"

text \<open>\<^verbatim>\<open>StatsClientBase._after\<close>: \<^verbatim>\<open>if data\<close> is false for \<^verbatim>\<open>None\<close> and for the empty string.\<close>

definition after ::
  "runtime \<Rightarrow> StatsClient \<Rightarrow> string option \<Rightarrow> world \<Rightarrow> (exn + unit) \<times> world" where
  "after rt self data w =
     (case data of
        None \<Rightarrow> (Inr (), w)
      | Some d \<Rightarrow> if d \<noteq> [] then StatsClient_send rt self d w else (Inr (), w))"

definition send_stat ::
  "runtime \<Rightarrow> StatsClient \<Rightarrow> string \<Rightarrow> string \<Rightarrow> pynum \<Rightarrow> world \<Rightarrow> (exn + unit) \<times> world" where
  "send_stat rt self stat value rate w =
     (let (data, w1) = prepare rt self stat value rate w in after rt self data w1)"

text \<open>The four metric operations. The default of \<^verbatim>\<open>count\<close> and of \<^verbatim>\<open>rate\<close> is \<open>PyInt 1\<close>.\<close>

definition timing ::
  "runtime \<Rightarrow> StatsClient \<Rightarrow> string \<Rightarrow> pynum \<Rightarrow> pynum \<Rightarrow> world \<Rightarrow> (exn + unit) \<times> world" where
  "timing rt self stat delta rate w =
     (case fmt_f6 delta of
        Inl err \<Rightarrow> (Inl err, w)
      | Inr s \<Rightarrow> send_stat rt self stat (s @ ''|ms'') rate w)"

definition incr ::
  "runtime \<Rightarrow> StatsClient \<Rightarrow> string \<Rightarrow> pynum \<Rightarrow> pynum \<Rightarrow> world \<Rightarrow> (exn + unit) \<times> world" where
  "incr rt self stat count rate w = send_stat rt self stat (py_str rt count @ ''|c'') rate w"

definition decr ::
  "runtime \<Rightarrow> StatsClient \<Rightarrow> string \<Rightarrow> pynum \<Rightarrow> pynum \<Rightarrow> world \<Rightarrow> (exn + unit) \<times> world" where
  "decr rt self stat count rate w = incr rt self stat (py_neg count) rate w"

definition set_stat ::
  "runtime \<Rightarrow> StatsClient \<Rightarrow> string \<Rightarrow> pyval \<Rightarrow> pynum \<Rightarrow> world \<Rightarrow> (exn + unit) \<times> world" where
  "set_stat rt self stat value rate w = send_stat rt self stat (py_str_val rt value @ ''|s'') rate w"

section \<open>The timer\<close>

text \<open>
  A \<^verbatim>\<open>Timer\<close> object: \<open>tm_ms\<close>, \<open>tm_sent\<close> and \<open>tm_start_time\<close> are the attributes
  \<^verbatim>\<open>ms\<close>, \<^verbatim>\<open>_sent\<close> and \<^verbatim>\<open>_start_time\<close>, with \<open>None\<close> for Python's \<^verbatim>\<open>None\<close>. A method takes
  the object's state and returns the new one next to its result: that it returns
  \<^verbatim>\<open>self\<close> is the state it hands back.
\<close>

record Timer =
  tm_client :: StatsClient
  tm_stat :: string
  tm_rate :: pynum
  tm_ms :: "pyfloat option"
  tm_sent :: bool
  tm_start_time :: "pyfloat option"

definition Timer_init :: "StatsClient \<Rightarrow> string \<Rightarrow> pynum \<Rightarrow> Timer" where
  "Timer_init client stat rate =
     \<lparr>tm_client = client, tm_stat = stat, tm_rate = rate,
      tm_ms = None, tm_sent = False, tm_start_time = None\<rparr>"

text \<open>\<^verbatim>\<open>StatsClientBase.timer\<close> constructs a timer bound to the client.\<close>

definition timer :: "StatsClient \<Rightarrow> string \<Rightarrow> pynum \<Rightarrow> world \<Rightarrow> Timer \<times> world" where
  "timer self stat rate w =
     (Timer_init self stat rate, w\<lparr>timers_created := Suc (timers_created w)\<rparr>)"

definition Timer_start :: "runtime \<Rightarrow> Timer \<Rightarrow> world \<Rightarrow> Timer \<times> world" where
  "Timer_start rt self w =
     (let self1 = self\<lparr>tm_ms := None\<rparr>;
          self2 = self1\<lparr>tm_sent := False\<rparr>;
          (now, w1) = time_now rt w
      in (self2\<lparr>tm_start_time := Some now\<rparr>, w1))"

definition Timer_send :: "runtime \<Rightarrow> Timer \<Rightarrow> world \<Rightarrow> (exn + unit) \<times> Timer \<times> world" where
  "Timer_send rt self w =
     (case tm_ms self of
        None \<Rightarrow> (Inl (RuntimeError ''No data recorded.''), self, w)
      | Some ms \<Rightarrow>
          if tm_sent self then (Inl (RuntimeError ''Already sent data.''), self, w)
          else
            (let self1 = self\<lparr>tm_sent := True\<rparr>;
                 (r, w1) = timing rt (tm_client self1) (tm_stat self1) (PyFloat ms) (tm_rate self1) w
             in (r, self1, w1)))"

text \<open>The constant \<^verbatim>\<open>1000.0\<close>.\<close>

definition thousand :: pyfloat where
  "thousand = Finite False 1000 0"

definition Timer_stop :: "runtime \<Rightarrow> Timer \<Rightarrow> bool \<Rightarrow> world \<Rightarrow> (exn + unit) \<times> Timer \<times> world" where
  "Timer_stop rt self send w =
     (case tm_start_time self of
        None \<Rightarrow> (Inl (RuntimeError ''Timer has not started.''), self, w)
      | Some start_time \<Rightarrow>
          (let (now, w1) = time_now rt w;
               dt = float_sub rt now start_time;
               self1 = self\<lparr>tm_ms := Some (float_mul rt thousand dt)\<rparr>
           in if send then Timer_send rt self1 w1 else (Inr (), self1, w1)))"

definition Timer_enter :: "runtime \<Rightarrow> Timer \<Rightarrow> world \<Rightarrow> Timer \<times> world" where
  "Timer_enter rt self w = Timer_start rt self w"

text \<open>
  \<^verbatim>\<open>Timer.__exit__\<close> calls \<^verbatim>\<open>self.stop()\<close> with the default \<^verbatim>\<open>send=True\<close> and returns
  \<^verbatim>\<open>None\<close>; the boolean result is the truth value of what it returns, by which the
  \<^verbatim>\<open>with\<close> statement decides whether to swallow an exception.
\<close>

definition Timer_exit :: "runtime \<Rightarrow> Timer \<Rightarrow> world \<Rightarrow> (exn + bool) \<times> Timer \<times> world" where
  "Timer_exit rt self w =
     (let (r, self1, w1) = Timer_stop rt self True w
      in case r of Inl err \<Rightarrow> (Inl err, self1, w1) | Inr _ \<Rightarrow> (Inr False, self1, w1))"

text \<open>
  The statement \<^verbatim>\<open>with t as h: body\<close> for a timer \<open>t\<close>, as Python defines it: the body
  runs on the handle that \<^verbatim>\<open>__enter__\<close> returned; \<^verbatim>\<open>__exit__\<close> runs whether the body
  returned or raised; an exception of \<^verbatim>\<open>__exit__\<close> replaces the body's outcome; otherwise
  the body's exception propagates unless \<^verbatim>\<open>__exit__\<close> returned a true value. The body is
  any code acting on the timer and the world; an exception does not undo its effects.
  The result \<open>Inr None\<close> is a swallowed exception.
\<close>

definition with_timer ::
  "runtime \<Rightarrow> Timer \<Rightarrow> (Timer \<Rightarrow> world \<Rightarrow> (exn + 'a) \<times> Timer \<times> world) \<Rightarrow> world
     \<Rightarrow> (exn + 'a option) \<times> Timer \<times> world" where
  "with_timer rt self body w =
     (let (handle, w1) = Timer_enter rt self w;
          (r, self2, w2) = body handle w1;
          (x, self3, w3) = Timer_exit rt self2 w2
      in case x of
           Inl err \<Rightarrow> (Inl err, self3, w3)
         | Inr swallow \<Rightarrow>
             (case r of
                Inr v \<Rightarrow> (Inr (Some v), self3, w3)
              | Inl err \<Rightarrow> if swallow then (Inr None, self3, w3) else (Inl err, self3, w3)))"

text \<open>
  The function \<^verbatim>\<open>_wrapped\<close> that \<^verbatim>\<open>Timer.__call__\<close> returns. \<open>f\<close> is the decorated
  callable, acting on the world; \<open>args\<close> stands for its positional and keyword
  arguments. The \<^verbatim>\<open>finally\<close> block runs whether \<open>f\<close> returned or raised; an exception
  raised inside it replaces the outcome of \<open>f\<close>. The function assigns no attribute of
  \<^verbatim>\<open>self\<close>, so it hands back no new timer state. (\<^verbatim>\<open>safe_wraps\<close> copies the name and
  the docstring of \<open>f\<close> and has no part in the call.)
\<close>

definition wrapped ::
  "runtime \<Rightarrow> Timer \<Rightarrow> ('a \<Rightarrow> world \<Rightarrow> (exn + 'b) \<times> world) \<Rightarrow> 'a \<Rightarrow> world \<Rightarrow> (exn + 'b) \<times> world" where
  "wrapped rt self f args w =
     (let (start_time, w1) = time_now rt w;
          (return_value, w2) = f args w1;
          (now, w3) = time_now rt w2;
          elapsed_time_ms = float_mul rt thousand (float_sub rt now start_time);
          (x, w4) = timing rt (tm_client self) (tm_stat self) (PyFloat elapsed_time_ms) (tm_rate self) w3
      in case x of Inl err \<Rightarrow> (Inl err, w4) | Inr _ \<Rightarrow> (return_value, w4))"

definition Timer_call ::
  "runtime \<Rightarrow> Timer \<Rightarrow> ('a \<Rightarrow> world \<Rightarrow> (exn + 'b) \<times> world) \<Rightarrow> ('a \<Rightarrow> world \<Rightarrow> (exn + 'b) \<times> world)" where
  "Timer_call rt self f = wrapped rt self f"

text \<open>
  A caller that invokes a decorated function on one argument after the other and
  goes on after an exception.
\<close>

fun call_each :: "('a \<Rightarrow> world \<Rightarrow> (exn + 'b) \<times> world) \<Rightarrow> 'a list \<Rightarrow> world \<Rightarrow> world" where
  "call_each g [] w = w"
| "call_each g (a # as) w = call_each g as (snd (g a w))"

text \<open>
  The decorator once more, with the timer as an object that other code can reach. A
  store maps every reference to the state of a \<^verbatim>\<open>Timer\<close> object; \<open>timers_created\<close> is the
  next free reference. \<open>wrapped_in_store\<close> is \<^verbatim>\<open>_wrapped\<close> for the timer at \<open>ref\<close>: the
  decorated callable acts on the store and the world, so it may hold a reference to
  the decorating timer, use it or construct timers; the \<^verbatim>\<open>finally\<close> block reads
  \<^verbatim>\<open>self.client\<close>, \<^verbatim>\<open>self.stat\<close> and \<^verbatim>\<open>self.rate\<close> from the object as the callable left it.
\<close>

type_synonym store = "nat \<Rightarrow> Timer"

definition timer_in_store ::
  "StatsClient \<Rightarrow> string \<Rightarrow> pynum \<Rightarrow> store \<times> world \<Rightarrow> nat \<times> store \<times> world" where
  "timer_in_store self stat rate s =
     (let (t, w1) = timer self stat rate (snd s)
      in (timers_created (snd s), (fst s)(timers_created (snd s) := t), w1))"

definition wrapped_in_store ::
  "runtime \<Rightarrow> nat \<Rightarrow> ('a \<Rightarrow> store \<times> world \<Rightarrow> (exn + 'b) \<times> store \<times> world) \<Rightarrow> 'a
     \<Rightarrow> store \<times> world \<Rightarrow> (exn + 'b) \<times> store \<times> world" where
  "wrapped_in_store rt ref f args s =
     (let (start_time, w1) = time_now rt (snd s);
          (return_value, h2, w2) = f args (fst s, w1);
          (now, w3) = time_now rt w2;
          elapsed_time_ms = float_mul rt thousand (float_sub rt now start_time);
          self = h2 ref;
          (x, w4) = timing rt (tm_client self) (tm_stat self) (PyFloat elapsed_time_ms) (tm_rate self) w3
      in (case x of Inl err \<Rightarrow> Inl err | Inr _ \<Rightarrow> return_value, h2, w4))"

text \<open>\<^verbatim>\<open>t.send()\<close> on the timer at a reference.\<close>

definition send_in_store ::
  "runtime \<Rightarrow> nat \<Rightarrow> store \<times> world \<Rightarrow> (exn + unit) \<times> store \<times> world" where
  "send_in_store rt ref s =
     (let (r, t, w1) = Timer_send rt (fst s ref) (snd s) in (r, (fst s)(ref := t), w1))"

text \<open>A callable that has no reference into the store.\<close>

definition outside ::
  "('a \<Rightarrow> world \<Rightarrow> (exn + 'b) \<times> world) \<Rightarrow> 'a \<Rightarrow> store \<times> world \<Rightarrow> (exn + 'b) \<times> store \<times> world" where
  "outside f args s = (let (r, w1) = f args (snd s) in (r, fst s, w1))"

fun call_each_in_store ::
  "('a \<Rightarrow> store \<times> world \<Rightarrow> (exn + 'b) \<times> store \<times> world) \<Rightarrow> 'a list \<Rightarrow> store \<times> world
     \<Rightarrow> store \<times> world" where
  "call_each_in_store g [] s = s"
| "call_each_in_store g (a # as) s = call_each_in_store g as (snd (g a s))"

section \<open>The fixtures of the test suite\<close>

text \<open>
  The tests (\<^verbatim>\<open>statsd/tests.py\<close>) build a client for \<^verbatim>\<open>ADDR\<close> whose socket is a mock
  that records calls, and pin \<^verbatim>\<open>random.random\<close> to a constant. \<open>test_runtime u\<close> is
  that environment with the constant \<open>u\<close>: \<^verbatim>\<open>sendto\<close> returns normally, the clock
  reads 1.0, 1.5, 2.0 and so on, and \<open>localhost\<close> resolves to 127.0.0.1 for
  \<^verbatim>\<open>AF_INET\<close> and to ::1 for \<^verbatim>\<open>AF_INET6\<close>, while the literal \<open>::1\<close> has no \<^verbatim>\<open>AF_INET\<close>
  address. Its float operations are given for the few floats that occur below: their
  text, and subtraction and multiplication without rounding.
\<close>

definition ADDR :: sockaddr where
  "ADDR = Addr4 ''127.0.0.1'' 8125"

definition half :: pyfloat where
  "half = Finite False 1 (- 1)"

fun exact_mul :: "pyfloat \<Rightarrow> pyfloat \<Rightarrow> pyfloat" where
  "exact_mul (Finite s m e) (Finite t n d) = Finite (s \<noteq> t) (m * n) (e + d)"
| "exact_mul _ _ = NaN"

fun exact_sub :: "pyfloat \<Rightarrow> pyfloat \<Rightarrow> pyfloat" where
  "exact_sub (Finite s m e) (Finite t n d) =
     (let k = min e d;
          a = (if s then - int m else int m) * 2 ^ nat (e - k);
          b = (if t then - int n else int n) * 2 ^ nat (d - k)
      in Finite (a - b < 0) (nat \<bar>a - b\<bar>) k)"
| "exact_sub _ _ = NaN"

definition test_resolver :: "string \<Rightarrow> int \<Rightarrow> family \<Rightarrow> socktype \<Rightarrow> exn + addrinfo list" where
  "test_resolver host port fam ty =
     (if host = ''localhost'' \<or> host = ''127.0.0.1'' then
        (case fam of
           AF_INET \<Rightarrow> Inr [(AF_INET, ty, 17, [], Addr4 ''127.0.0.1'' port)]
         | AF_INET6 \<Rightarrow>
             if host = ''localhost'' then Inr [(AF_INET6, ty, 17, [], Addr6 ''::1'' port 0 0)]
             else Inl GaiError)
      else if host = ''::1'' then
        (case fam of
           AF_INET \<Rightarrow> Inl GaiError
         | AF_INET6 \<Rightarrow> Inr [(AF_INET6, ty, 17, [], Addr6 ''::1'' port 0 0)])
      else Inl GaiError)"

text \<open>
  The text of the floats that occur in the tests: 0.5 and 1.2 (the double
  \<open>5404319552844595 * 2^-52\<close>). As Python does, it prints the sign bit as a minus sign
  before the text of the magnitude.
\<close>

definition one_point_two :: pyfloat where
  "one_point_two = Finite False 5404319552844595 (- 52)"

fun test_repr :: "pyfloat \<Rightarrow> string" where
  "test_repr (Finite s m e) =
     (if s then ''-'' else []) @
     (if m = 1 \<and> e = - 1 then ''0.5''
      else if m = 5404319552844595 \<and> e = - 52 then ''1.2''
      else ''?'')"
| "test_repr (Infinity s) = (if s then ''-inf'' else ''inf'')"
| "test_repr NaN = ''nan''"

definition test_runtime :: "pynum \<Rightarrow> runtime" where
  "test_runtime u =
     \<lparr>rand_source = (\<lambda>k. u),
      clock = (\<lambda>k. Finite False (2 + k) (- 1)),
      os_sendto = (\<lambda>k sock bytes addr. None),
      resolver = test_resolver,
      os_socket = (\<lambda>k fam ty. None),
      float_repr = test_repr,
      float_sub = exact_sub,
      float_mul = exact_mul\<rparr>"

definition world0 :: world where
  "world0 =
     \<lparr>random_calls = 0, clock_calls = 0, sendto_calls = [], getaddrinfo_calls = [],
      sockets = [], timers_created = 0\<rparr>"

definition udp_client :: "string option \<Rightarrow> StatsClient" where
  "udp_client prefix = \<lparr>sc_addr = ADDR, sc_sock = 0, sc_prefix = prefix, sc_maxudpsize = 512\<rparr>"

text \<open>
  The environment of \<^verbatim>\<open>test_socket_error\<close>: every \<^verbatim>\<open>sendto\<close> raises \<^verbatim>\<open>socket.timeout\<close>.
\<close>

definition timeout_runtime :: runtime where
  "timeout_runtime =
     (test_runtime (PyInt (- 1)))\<lparr>os_sendto := (\<lambda>k sock bytes addr. Some SocketTimeout)\<rparr>"

text \<open>
  Timers, scoped bodies and decorated callables of the tests: the timer \<^verbatim>\<open>cl.timer('foo')\<close>;
  a body that does nothing and one that raises; the function \<^verbatim>\<open>foo(a, b)\<close> that
  returns \<^verbatim>\<open>[a, b]\<close> and one that raises. \<open>cafe_timer\<close> is a timer whose stat name
  ends in the character of code \<open>0xE9\<close>, and \<open>stopping_body\<close> is the scoped code
  \<^verbatim>\<open>t.stop(); raise err\<close>.
\<close>

definition foo_timer :: Timer where
  "foo_timer = Timer_init (udp_client None) ''foo'' (PyInt 1)"

definition cafe_timer :: Timer where
  "cafe_timer = Timer_init (udp_client None) [CHR ''c'', CHR ''a'', CHR ''f'', CHR 0xE9] (PyInt 1)"

definition pass_body :: "Timer \<Rightarrow> world \<Rightarrow> (exn + unit) \<times> Timer \<times> world" where
  "pass_body t w = (Inr (), t, w)"

definition raising_body :: "exn \<Rightarrow> Timer \<Rightarrow> world \<Rightarrow> (exn + unit) \<times> Timer \<times> world" where
  "raising_body err t w = (Inl err, t, w)"

definition foo_fn :: "int \<times> int \<Rightarrow> world \<Rightarrow> (exn + int list) \<times> world" where
  "foo_fn ab w = (Inr [fst ab, snd ab], w)"

definition raising_fn :: "exn \<Rightarrow> unit \<Rightarrow> world \<Rightarrow> (exn + int list) \<times> world" where
  "raising_fn err u w = (Inl err, w)"

definition stopping_body ::
  "runtime \<Rightarrow> exn \<Rightarrow> Timer \<Rightarrow> world \<Rightarrow> (exn + unit) \<times> Timer \<times> world" where
  "stopping_body rt err t w =
     (let (r, t1, w1) = Timer_stop rt t True w
      in case r of Inl e \<Rightarrow> (Inl e, t1, w1) | Inr u \<Rightarrow> (Inl err, t1, w1))"

text \<open>
  A decorated callable that holds a reference to its own decorating timer and uses it:
  \<^verbatim>\<open>t.start(); t.stop(send=False)\<close>.
\<close>

definition timer_using_fn ::
  "runtime \<Rightarrow> nat \<Rightarrow> unit \<Rightarrow> store \<times> world \<Rightarrow> (exn + unit) \<times> store \<times> world" where
  "timer_using_fn rt ref u s =
     (let (t1, w1) = Timer_start rt (fst s ref) (snd s);
          (r, t2, w2) = Timer_stop rt t1 False w1
      in (r, (fst s)(ref := t2), w2))"

text \<open>A decorated callable that constructs a timer of its own: \<^verbatim>\<open>return cl.timer('bar')\<close>.\<close>

definition timer_making_fn ::
  "StatsClient \<Rightarrow> unit \<Rightarrow> store \<times> world \<Rightarrow> (exn + nat) \<times> store \<times> world" where
  "timer_making_fn cl u s =
     (let (ref, h1, w1) = timer_in_store cl ''bar'' (PyInt 1) s in (Inr ref, h1, w1))"

section \<open>Notions used to state the properties\<close>

text \<open>The stat name as it stands in a line, \<^verbatim>\<open>[prefix.]stat\<close>.\<close>

definition prefixed :: "StatsClient \<Rightarrow> string \<Rightarrow> string" where
  "prefixed self stat =
     (case sc_prefix self of
        None \<Rightarrow> stat
      | Some p \<Rightarrow> if p = [] then stat else p @ ''.'' @ stat)"

text \<open>
  What the handler of \<^verbatim>\<open>_send\<close> absorbs: \<^verbatim>\<open>sendto\<close> returned, or raised an exception of
  class \<^verbatim>\<open>socket.error\<close> or \<^verbatim>\<open>RuntimeError\<close>.
\<close>

fun absorbed :: "exn option \<Rightarrow> bool" where
  "absorbed None = True"
| "absorbed (Some err) = (is_socket_error err \<or> is_RuntimeError err)"

text \<open>A decimal digit.\<close>

definition is_digit :: "char \<Rightarrow> bool" where
  "is_digit c = (c \<in> set ''0123456789'')"

text \<open>
  The numbers that \<^verbatim>\<open>%0.6f\<close> prints in digits: a finite \<^verbatim>\<open>float\<close>, and an \<^verbatim>\<open>int\<close> that
  converts to one, which is an \<^verbatim>\<open>int\<close> of magnitude below \<open>2^1024 - 2^970\<close>.
\<close>

fun finite_num :: "pynum \<Rightarrow> bool" where
  "finite_num (PyInt n) = (\<bar>n\<bar> < 2 ^ 1024 - 2 ^ 970)"
| "finite_num (PyFloat (Finite s m e)) = True"
| "finite_num (PyFloat (Infinity s)) = False"
| "finite_num (PyFloat NaN) = False"

section \<open>The steps of the sampling gate\<close>

lemma py_eq_one_not_less: "py_eq rate (PyInt 1) \<Longrightarrow> \<not> py_lt rate (PyInt 1)"
proof (cases rate)
  case (PyInt n)
  assume "py_eq rate (PyInt 1)"
  with PyInt show ?thesis by (simp add: dyadic_eq_def dyadic_less_def)
next
  case (PyFloat x)
  assume eq: "py_eq rate (PyInt 1)"
  show ?thesis
  proof (cases x)
    case (Finite s m e)
    with PyFloat eq show ?thesis by (simp add: dyadic_eq_def dyadic_less_def Let_def)
  next
    case (Infinity s)
    with PyFloat eq show ?thesis by simp
  next
    case NaN
    with PyFloat eq show ?thesis by simp
  qed
qed

lemma prepare_full_rate:
  "\<not> py_lt rate (PyInt 1) \<Longrightarrow>
   prepare rt self stat value rate w = (Some (prefixed self stat @ '':'' @ value), w)"
  by (simp add: prepare_def prefixed_def split: option.split)

lemma prepare_sampled:
  "py_lt rate (PyInt 1) \<Longrightarrow>
   prepare rt self stat value rate w =
     (if py_gt (rand_source rt (random_calls w)) rate then None
      else Some (prefixed self stat @ '':'' @ value @ ''|@'' @ py_str rt rate),
      w\<lparr>random_calls := Suc (random_calls w)\<rparr>)"
  by (simp add: prepare_def prefixed_def random_random_def split: option.split)

lemma after_line: "d \<noteq> [] \<Longrightarrow> after rt self (Some d) w = StatsClient_send rt self d w"
  by (simp add: after_def)

lemma after_None: "after rt self None w = (Inr (), w)"
  by (simp add: after_def)

lemma send_stat_full_rate:
  "\<not> py_lt rate (PyInt 1) \<Longrightarrow>
   send_stat rt self stat value rate w =
     StatsClient_send rt self (prefixed self stat @ '':'' @ value) w"
  by (simp add: send_stat_def prepare_full_rate after_line)

lemma send_stat_sampled:
  "py_lt rate (PyInt 1) \<Longrightarrow>
   send_stat rt self stat value rate w =
     (if py_gt (rand_source rt (random_calls w)) rate
      then (Inr (), w\<lparr>random_calls := Suc (random_calls w)\<rparr>)
      else StatsClient_send rt self (prefixed self stat @ '':'' @ value @ ''|@'' @ py_str rt rate)
             (w\<lparr>random_calls := Suc (random_calls w)\<rparr>))"
  by (simp add: send_stat_def prepare_sampled after_line after_None)

lemmas fixture_simps = test_runtime_def udp_client_def world0_def ADDR_def half_def prefixed_def
  dyadic_less_def dyadic_eq_def py_gt_def

section \<open>The transport\<close>

lemmas client_simps = incr_def decr_def set_stat_def timing_def send_stat_def prepare_def after_def
  StatsClient_send_def encode_ascii_def is_ascii_def random_random_def
  int_str_def nat_str.simps digit_char_def

lemma StatsClient_send_ascii:
  "is_ascii data \<Longrightarrow>
   absorbed (os_sendto rt (length (sendto_calls w)) (sc_sock self) data (sc_addr self)) \<Longrightarrow>
   StatsClient_send rt self data w =
     (Inr (), w\<lparr>sendto_calls := sendto_calls w @ [(sc_sock self, data, sc_addr self)]\<rparr>)"
  by (cases "os_sendto rt (length (sendto_calls w)) (sc_sock self) data (sc_addr self)")
     (simp_all add: StatsClient_send_def encode_ascii_def)

lemma StatsClient_send_not_ascii:
  "\<not> is_ascii data \<Longrightarrow> StatsClient_send rt self data w = (Inl UnicodeEncodeError, w)"
  by (simp add: StatsClient_send_def encode_ascii_def)

lemma StatsClient_send_calls:
  "sendto_calls (snd (StatsClient_send rt self data w)) =
     (if is_ascii data then sendto_calls w @ [(sc_sock self, data, sc_addr self)]
      else sendto_calls w)"
  by (simp add: StatsClient_send_def encode_ascii_def Let_def split: option.split)

text \<open>
  \<^verbatim>\<open>test_socket_error\<close>: the socket raises \<^verbatim>\<open>socket.timeout\<close>, the call returns normally
  and the mock has recorded one call.
\<close>

lemma test_socket_error:
  "incr timeout_runtime (udp_client None) ''foo'' (PyInt 1) (PyInt 1) world0 =
     (Inr (), world0\<lparr>sendto_calls := [(0, ''foo:1|c'', ADDR)]\<rparr>)"
  by (simp add: client_simps timeout_runtime_def fixture_simps)

text \<open>
  Claim C5, as the code has it. For every line of ASCII characters, when \<^verbatim>\<open>sendto\<close>
  returns or raises an exception of class \<^verbatim>\<open>socket.error\<close> or \<^verbatim>\<open>RuntimeError\<close>, the
  exception is discarded: \<^verbatim>\<open>_send\<close> returns normally, and \<^verbatim>\<open>sendto\<close> was called exactly
  once, on the line and the resolved address. A line with a character outside ASCII
  makes \<^verbatim>\<open>data.encode('ascii')\<close> raise \<^verbatim>\<open>UnicodeEncodeError\<close>, which the handler does not
  catch: it escapes to the caller, and \<^verbatim>\<open>sendto\<close> is not called. In every case one call
  of \<^verbatim>\<open>_send\<close> makes zero or one call of \<^verbatim>\<open>sendto\<close>.
\<close>

theorem send_absorbs_transport_errors:
  "(is_ascii data \<and>
    absorbed (os_sendto rt (length (sendto_calls w)) (sc_sock self) data (sc_addr self)) \<longrightarrow>
      StatsClient_send rt self data w =
        (Inr (), w\<lparr>sendto_calls := sendto_calls w @ [(sc_sock self, data, sc_addr self)]\<rparr>)) \<and>
   (\<not> is_ascii data \<longrightarrow> StatsClient_send rt self data w = (Inl UnicodeEncodeError, w)) \<and>
   (sendto_calls (snd (StatsClient_send rt self data w)) = sendto_calls w \<or>
    sendto_calls (snd (StatsClient_send rt self data w)) =
      sendto_calls w @ [(sc_sock self, data, sc_addr self)])"
proof (intro conjI impI)
  assume "is_ascii data \<and>
    absorbed (os_sendto rt (length (sendto_calls w)) (sc_sock self) data (sc_addr self))"
  then show "StatsClient_send rt self data w =
      (Inr (), w\<lparr>sendto_calls := sendto_calls w @ [(sc_sock self, data, sc_addr self)]\<rparr>)"
    by (simp add: StatsClient_send_ascii)
next
  assume "\<not> is_ascii data"
  then show "StatsClient_send rt self data w = (Inl UnicodeEncodeError, w)"
    by (rule StatsClient_send_not_ascii)
next
  show "sendto_calls (snd (StatsClient_send rt self data w)) = sendto_calls w \<or>
    sendto_calls (snd (StatsClient_send rt self data w)) =
      sendto_calls w @ [(sc_sock self, data, sc_addr self)]"
    by (simp add: StatsClient_send_calls)
qed

text \<open>
  The theorem at the line \<^verbatim>\<open>foo:1|c\<close> with a socket that raises \<^verbatim>\<open>socket.timeout\<close>, and
  at a line of four characters whose last has the code \<open>0xE9\<close>.
\<close>

theorem send_absorbs_transport_errors_witness:
  "is_ascii ''foo:1|c'' \<and>
   os_sendto timeout_runtime 0 0 ''foo:1|c'' ADDR = Some SocketTimeout \<and>
   absorbed (Some SocketTimeout) \<and>
   StatsClient_send timeout_runtime (udp_client None) ''foo:1|c'' world0 =
     (Inr (), world0\<lparr>sendto_calls := [(0, ''foo:1|c'', ADDR)]\<rparr>) \<and>
   \<not> is_ascii [CHR ''c'', CHR ''a'', CHR ''f'', CHR 0xE9] \<and>
   StatsClient_send timeout_runtime (udp_client None) [CHR ''c'', CHR ''a'', CHR ''f'', CHR 0xE9]
       world0 =
     (Inl UnicodeEncodeError, world0)"
  using send_absorbs_transport_errors [of "''foo:1|c''" timeout_runtime world0 "udp_client None"]
    send_absorbs_transport_errors
      [of "[CHR ''c'', CHR ''a'', CHR ''f'', CHR 0xE9]" timeout_runtime world0 "udp_client None"]
  by (simp add: timeout_runtime_def fixture_simps is_ascii_def)

text \<open>
  The claim as stated fails at a line with a character outside ASCII: the encoding
  error escapes from \<^verbatim>\<open>_send\<close>.
\<close>

theorem send_unicode_error_escapes:
  "fst (StatsClient_send (test_runtime (PyInt (- 1))) (udp_client None)
          [CHR ''c'', CHR ''a'', CHR ''f'', CHR 0xE9, CHR '':'', CHR ''1'', CHR ''|'', CHR ''c'']
          world0)
     = Inl UnicodeEncodeError"
  by (simp add: StatsClient_send_def encode_ascii_def is_ascii_def)

section \<open>The prefix\<close>

lemma prepare_lines:
  "prepare rt self stat value rate w = (Some line, w') \<Longrightarrow>
   line = prefixed self stat @ '':'' @ value \<or>
   line = prefixed self stat @ '':'' @ value @ ''|@'' @ py_str rt rate"
  by (cases "py_lt rate (PyInt 1)")
     (auto simp: prepare_full_rate prepare_sampled split: if_splits)

lemma send_stat_by_prepare:
  "send_stat rt self stat value rate w =
     (case prepare rt self stat value rate w of
        (None, w1) \<Rightarrow> (Inr (), w1)
      | (Some line, w1) \<Rightarrow> StatsClient_send rt self line w1)"
  by (cases "py_lt rate (PyInt 1)")
     (simp_all add: send_stat_def prepare_full_rate prepare_sampled after_line after_None)

text \<open>
  Claim C8, as the code has it. Every metric operation emits the line that \<^verbatim>\<open>_prepare\<close>
  builds. When the client's prefix is a non-empty string, that line is the prefix, a
  \<open>.\<close>, the stat name, a \<open>:\<close> and the value (with the rate annotation when sampling
  is active); the prefix is an attribute that no operation assigns, so this holds for
  the client's whole lifetime. When the prefix is \<^verbatim>\<open>None\<close> or the empty string, the test
  \<^verbatim>\<open>if self._prefix\<close> fails and the stat name is used as given. With prefix \<open>foo\<close>,
  \<^verbatim>\<open>incr('bar')\<close> sends \<^verbatim>\<open>foo.bar:1|c\<close>.
\<close>

theorem prefix_prepended:
  "send_stat rt self stat value rate w =
     (case prepare rt self stat value rate w of
        (None, w1) \<Rightarrow> (Inr (), w1)
      | (Some line, w1) \<Rightarrow> StatsClient_send rt self line w1) \<and>
   (prepare rt self stat value rate w = (Some line, w') \<and> sc_prefix self = Some p \<and> p \<noteq> [] \<longrightarrow>
      line = p @ ''.'' @ stat @ '':'' @ value \<or>
      line = p @ ''.'' @ stat @ '':'' @ value @ ''|@'' @ py_str rt rate) \<and>
   (prepare rt self stat value rate w = (Some line, w') \<and>
    (sc_prefix self = None \<or> sc_prefix self = Some []) \<longrightarrow>
      line = stat @ '':'' @ value \<or>
      line = stat @ '':'' @ value @ ''|@'' @ py_str rt rate) \<and>
   incr (test_runtime (PyInt (- 1))) (udp_client (Some ''foo'')) ''bar'' (PyInt 1) (PyInt 1) world0 =
     (Inr (), world0\<lparr>sendto_calls := [(0, ''foo.bar:1|c'', ADDR)]\<rparr>)"
proof (intro conjI impI)
  show "send_stat rt self stat value rate w =
     (case prepare rt self stat value rate w of
        (None, w1) \<Rightarrow> (Inr (), w1)
      | (Some line, w1) \<Rightarrow> StatsClient_send rt self line w1)"
    by (rule send_stat_by_prepare)
next
  assume a: "prepare rt self stat value rate w = (Some line, w') \<and> sc_prefix self = Some p \<and> p \<noteq> []"
  then have "prefixed self stat = p @ ''.'' @ stat" by (simp add: prefixed_def)
  with a prepare_lines [of rt self stat "value" rate w line w']
  show "line = p @ ''.'' @ stat @ '':'' @ value \<or>
      line = p @ ''.'' @ stat @ '':'' @ value @ ''|@'' @ py_str rt rate"
    by simp
next
  assume a: "prepare rt self stat value rate w = (Some line, w') \<and>
    (sc_prefix self = None \<or> sc_prefix self = Some [])"
  then have "prefixed self stat = stat" by (auto simp: prefixed_def)
  with a prepare_lines [of rt self stat "value" rate w line w']
  show "line = stat @ '':'' @ value \<or>
      line = stat @ '':'' @ value @ ''|@'' @ py_str rt rate"
    by simp
next
  show "incr (test_runtime (PyInt (- 1))) (udp_client (Some ''foo'')) ''bar'' (PyInt 1) (PyInt 1) world0 =
     (Inr (), world0\<lparr>sendto_calls := [(0, ''foo.bar:1|c'', ADDR)]\<rparr>)"
    by (simp add: client_simps fixture_simps)
qed

text \<open>The theorem at the clients of the tests, with prefix \<open>foo\<close> and with none.\<close>

theorem prefix_prepended_witness:
  "prepare (test_runtime (PyInt (- 1))) (udp_client (Some ''foo'')) ''bar'' ''1|c'' (PyInt 1) world0
     = (Some ''foo.bar:1|c'', world0) \<and>
   sc_prefix (udp_client (Some ''foo'')) = Some ''foo'' \<and> ''foo'' \<noteq> [] \<and>
   prepare (test_runtime (PyInt (- 1))) (udp_client None) ''bar'' ''1|c'' (PyInt 1) world0
     = (Some ''bar:1|c'', world0) \<and>
   sc_prefix (udp_client None) = None"
  using prefix_prepended [of "test_runtime (PyInt (- 1))" "udp_client (Some ''foo'')" "''bar''" "''1|c''" "PyInt 1" world0 "''foo.bar:1|c''" world0 "''foo''"]
    prefix_prepended [of "test_runtime (PyInt (- 1))" "udp_client None" "''bar''" "''1|c''" "PyInt 1" world0 "''bar:1|c''" world0 "''foo''"]
  by (simp add: client_simps fixture_simps)

text \<open>
  The claim as stated fails at a client configured with the empty string as prefix:
  the line is \<^verbatim>\<open>bar:1|c\<close>, not the prefix, a \<open>.\<close> and the stat name.
\<close>

theorem empty_prefix_not_prepended:
  "fst (prepare (test_runtime (PyInt (- 1))) (udp_client (Some '''')) ''bar'' ''1|c'' (PyInt 1) world0)
     = Some ''bar:1|c'' \<and>
   ''bar:1|c'' \<noteq> '''' @ ''.'' @ ''bar'' @ '':'' @ ''1|c''"
  by (simp add: client_simps fixture_simps)

section \<open>Decrement\<close>

lemma py_neg_neg: "py_neg (py_neg count) = count"
proof (cases count)
  case (PyInt n)
  then show ?thesis by simp
next
  case (PyFloat x)
  then show ?thesis by (cases x) simp_all
qed

lemma int_str_neg: "0 < n \<Longrightarrow> int_str (- n) = CHR ''-'' # int_str n"
  by (simp add: int_str_def)

lemma py_neg_value: "dyadic (py_neg count) = map_option (\<lambda>(a, b). (- a, b)) (dyadic count)"
proof (cases count)
  case (PyInt n)
  then show ?thesis by simp
next
  case (PyFloat x)
  then show ?thesis by (cases x) simp_all
qed

lemma py_neg_sign: "py_lt (py_neg count) (PyInt 0) = py_lt (PyInt 0) count"
proof (cases count)
  case (PyInt n)
  then show ?thesis by (simp add: dyadic_less_def)
next
  case (PyFloat x)
  show ?thesis
  proof (cases x)
    case (Finite s m e)
    have "(0::int) < 2 ^ nat (e - min e 0)" by simp
    then show ?thesis using PyFloat Finite
      by (cases s) (simp_all add: dyadic_less_def Let_def zero_less_mult_iff mult_less_0_iff)
  next
    case (Infinity s)
    with PyFloat show ?thesis by simp
  next
    case NaN
    with PyFloat show ?thesis by simp
  qed
qed

text \<open>
  Claim C9. For every stat name, count and rate, \<^verbatim>\<open>decr(stat, n, rate)\<close> is
  \<^verbatim>\<open>incr(stat, -n, rate)\<close>. Both call \<^verbatim>\<open>_send_stat\<close>, on the text of \<open>n\<close> and of \<open>-n\<close>; from
  the same world both lines are suppressed or both are produced, and the two lines are
  the same text around the number, so they differ only in \<open>n\<close> against \<open>-n\<close>. The count
  that \<^verbatim>\<open>decr\<close> passes on is the negated one, for an \<^verbatim>\<open>int\<close> and for a \<^verbatim>\<open>float\<close>: an
  \<^verbatim>\<open>int\<close> is negated, a \<^verbatim>\<open>float\<close> has its sign bit flipped, so the value of a finite
  count is negated, a count is below zero after negation exactly when it was above
  zero before, and negating twice gives the count back. In the text, a positive \<^verbatim>\<open>int\<close>
  gets a minus sign before its digits, a negative \<^verbatim>\<open>int\<close> loses its minus sign, zero
  keeps its text, and a \<^verbatim>\<open>float\<close> gets a minus sign wherever the runtime
  prints the sign bit as a minus sign before the magnitude, as Python does.
  \<^verbatim>\<open>decr('foo', 5)\<close> sends \<^verbatim>\<open>foo:-5|c\<close>, and \<^verbatim>\<open>decr('foo', 1.2)\<close> sends \<^verbatim>\<open>foo:-1.2|c\<close> where
  \<^verbatim>\<open>incr('foo', 1.2)\<close> sends \<^verbatim>\<open>foo:1.2|c\<close>.
\<close>

theorem decr_negates_count:
  "decr rt self stat count rate w = incr rt self stat (py_neg count) rate w \<and>
   incr rt self stat count rate w = send_stat rt self stat (py_str rt count @ ''|c'') rate w \<and>
   decr rt self stat count rate w = send_stat rt self stat (py_str rt (py_neg count) @ ''|c'') rate w \<and>
   (\<exists>pre post suppressed.
      fst (prepare rt self stat (py_str rt count @ ''|c'') rate w) =
        (if suppressed then None else Some (pre @ py_str rt count @ post)) \<and>
      fst (prepare rt self stat (py_str rt (py_neg count) @ ''|c'') rate w) =
        (if suppressed then None else Some (pre @ py_str rt (py_neg count) @ post))) \<and>
   py_neg (PyInt n) = PyInt (- n) \<and>
   py_neg (PyFloat (Finite sg m e)) = PyFloat (Finite (\<not> sg) m e) \<and>
   py_neg (PyFloat (Infinity sg)) = PyFloat (Infinity (\<not> sg)) \<and>
   dyadic (py_neg count) = map_option (\<lambda>(a, b). (- a, b)) (dyadic count) \<and>
   py_lt (py_neg count) (PyInt 0) = py_lt (PyInt 0) count \<and>
   py_neg (py_neg count) = count \<and>
   (0 < n \<longrightarrow> py_str rt (py_neg (PyInt n)) = CHR ''-'' # py_str rt (PyInt n)) \<and>
   (j < 0 \<longrightarrow> py_str rt (PyInt j) = CHR ''-'' # py_str rt (py_neg (PyInt j))) \<and>
   py_str rt (py_neg (PyInt 0)) = py_str rt (PyInt 0) \<and>
   (float_repr rt (Finite True m e) = CHR ''-'' # float_repr rt (Finite False m e) \<longrightarrow>
      py_str rt (py_neg (PyFloat (Finite False m e))) =
        CHR ''-'' # py_str rt (PyFloat (Finite False m e))) \<and>
   decr (test_runtime (PyInt (- 1))) (udp_client None) ''foo'' (PyInt 5) (PyInt 1) world0 =
     (Inr (), world0\<lparr>sendto_calls := [(0, ''foo:-5|c'', ADDR)]\<rparr>) \<and>
   incr (test_runtime (PyInt (- 1))) (udp_client None) ''foo'' (PyFloat one_point_two) (PyInt 1)
       world0 =
     (Inr (), world0\<lparr>sendto_calls := [(0, ''foo:1.2|c'', ADDR)]\<rparr>) \<and>
   decr (test_runtime (PyInt (- 1))) (udp_client None) ''foo'' (PyFloat one_point_two) (PyInt 1)
       world0 =
     (Inr (), world0\<lparr>sendto_calls := [(0, ''foo:-1.2|c'', ADDR)]\<rparr>)"
proof (intro conjI impI)
  show "decr rt self stat count rate w = incr rt self stat (py_neg count) rate w"
    by (simp add: decr_def)
  show "incr rt self stat count rate w = send_stat rt self stat (py_str rt count @ ''|c'') rate w"
    by (simp add: incr_def)
  show "decr rt self stat count rate w =
      send_stat rt self stat (py_str rt (py_neg count) @ ''|c'') rate w"
    by (simp add: decr_def incr_def)
  show "\<exists>pre post suppressed.
      fst (prepare rt self stat (py_str rt count @ ''|c'') rate w) =
        (if suppressed then None else Some (pre @ py_str rt count @ post)) \<and>
      fst (prepare rt self stat (py_str rt (py_neg count) @ ''|c'') rate w) =
        (if suppressed then None else Some (pre @ py_str rt (py_neg count) @ post))"
  proof (cases "py_lt rate (PyInt 1)")
    case True
    then show ?thesis
      by (intro exI [of _ "prefixed self stat @ '':''"] exI [of _ "''|c|@'' @ py_str rt rate"]
            exI [of _ "py_gt (rand_source rt (random_calls w)) rate"])
         (simp add: prepare_sampled)
  next
    case False
    then show ?thesis
      by (intro exI [of _ "prefixed self stat @ '':''"] exI [of _ "''|c''"] exI [of _ False])
         (simp add: prepare_full_rate)
  qed
  show "py_neg (PyInt n) = PyInt (- n)" by simp
  show "py_neg (PyFloat (Finite sg m e)) = PyFloat (Finite (\<not> sg) m e)" by simp
  show "py_neg (PyFloat (Infinity sg)) = PyFloat (Infinity (\<not> sg))" by simp
  show "dyadic (py_neg count) = map_option (\<lambda>(a, b). (- a, b)) (dyadic count)"
    by (rule py_neg_value)
  show "py_lt (py_neg count) (PyInt 0) = py_lt (PyInt 0) count" by (rule py_neg_sign)
  show "py_neg (py_neg count) = count" by (rule py_neg_neg)
next
  assume "0 < n"
  then show "py_str rt (py_neg (PyInt n)) = CHR ''-'' # py_str rt (PyInt n)"
    by (simp add: int_str_neg)
next
  assume "j < 0"
  then show "py_str rt (PyInt j) = CHR ''-'' # py_str rt (py_neg (PyInt j))"
    by (simp add: int_str_def)
next
  show "py_str rt (py_neg (PyInt 0)) = py_str rt (PyInt 0)" by simp
next
  assume "float_repr rt (Finite True m e) = CHR ''-'' # float_repr rt (Finite False m e)"
  then show "py_str rt (py_neg (PyFloat (Finite False m e))) =
      CHR ''-'' # py_str rt (PyFloat (Finite False m e))"
    by simp
next
  show "decr (test_runtime (PyInt (- 1))) (udp_client None) ''foo'' (PyInt 5) (PyInt 1) world0 =
     (Inr (), world0\<lparr>sendto_calls := [(0, ''foo:-5|c'', ADDR)]\<rparr>)"
    by (simp add: client_simps fixture_simps)
next
  show "incr (test_runtime (PyInt (- 1))) (udp_client None) ''foo'' (PyFloat one_point_two) (PyInt 1)
       world0 =
     (Inr (), world0\<lparr>sendto_calls := [(0, ''foo:1.2|c'', ADDR)]\<rparr>)"
    by (simp add: client_simps fixture_simps one_point_two_def)
next
  show "decr (test_runtime (PyInt (- 1))) (udp_client None) ''foo'' (PyFloat one_point_two) (PyInt 1)
       world0 =
     (Inr (), world0\<lparr>sendto_calls := [(0, ''foo:-1.2|c'', ADDR)]\<rparr>)"
    by (simp add: client_simps fixture_simps one_point_two_def)
qed

text \<open>The theorem at the \<^verbatim>\<open>int\<close> 5 and at the \<^verbatim>\<open>float\<close> 1.2 in the runtime of the tests.\<close>

theorem decr_negates_count_witness:
  "(0::int) < 5 \<and>
   py_str (test_runtime (PyInt (- 1))) (py_neg (PyInt 5)) = ''-5'' \<and>
   (- 10 :: int) < 0 \<and>
   py_str (test_runtime (PyInt (- 1))) (PyInt (- 10)) = ''-10'' \<and>
   py_str (test_runtime (PyInt (- 1))) (py_neg (PyInt (- 10))) = ''10'' \<and>
   py_str (test_runtime (PyInt (- 1))) (PyInt 5) = ''5'' \<and>
   float_repr (test_runtime (PyInt (- 1))) (Finite True 5404319552844595 (- 52)) =
     CHR ''-'' # float_repr (test_runtime (PyInt (- 1))) (Finite False 5404319552844595 (- 52)) \<and>
   py_str (test_runtime (PyInt (- 1))) (py_neg (PyFloat (Finite False 5404319552844595 (- 52)))) =
     ''-1.2'' \<and>
   py_str (test_runtime (PyInt (- 1))) (PyFloat (Finite False 5404319552844595 (- 52))) = ''1.2''"
  using decr_negates_count [where n = 5 and j = "- 10" and rt = "test_runtime (PyInt (- 1))"
      and m = 5404319552844595 and e = "- 52"]
  by (simp add: int_str_def nat_str.simps digit_char_def test_runtime_def)

section \<open>The timer protocol\<close>

lemma Timer_stop_not_started:
  "tm_start_time self = None \<Longrightarrow>
   Timer_stop rt self send w = (Inl (RuntimeError ''Timer has not started.''), self, w)"
  by (simp add: Timer_stop_def)

lemma Timer_send_no_data:
  "tm_ms self = None \<Longrightarrow> Timer_send rt self w = (Inl (RuntimeError ''No data recorded.''), self, w)"
  by (simp add: Timer_send_def)

lemma Timer_send_already:
  "tm_ms self = Some ms \<Longrightarrow> tm_sent self \<Longrightarrow>
   Timer_send rt self w = (Inl (RuntimeError ''Already sent data.''), self, w)"
  by (simp add: Timer_send_def)

lemma Timer_send_first:
  "tm_ms self = Some ms \<Longrightarrow> \<not> tm_sent self \<Longrightarrow>
   Timer_send rt self w =
     (fst (timing rt (tm_client self) (tm_stat self) (PyFloat ms) (tm_rate self) w),
      self\<lparr>tm_sent := True\<rparr>,
      snd (timing rt (tm_client self) (tm_stat self) (PyFloat ms) (tm_rate self) w))"
  by (simp add: Timer_send_def split_beta)

lemma Timer_start_eq:
  "Timer_start rt self w =
     (self\<lparr>tm_ms := None, tm_sent := False, tm_start_time := Some (clock rt (clock_calls w))\<rparr>,
      w\<lparr>clock_calls := Suc (clock_calls w)\<rparr>)"
  by (simp add: Timer_start_def time_now_def)

lemma Timer_stop_started:
  "tm_start_time self = Some t0 \<Longrightarrow>
   Timer_stop rt self send w =
     (let self1 = self\<lparr>tm_ms := Some (float_mul rt thousand (float_sub rt (clock rt (clock_calls w)) t0))\<rparr>;
          w1 = w\<lparr>clock_calls := Suc (clock_calls w)\<rparr>
      in if send then Timer_send rt self1 w1 else (Inr (), self1, w1))"
  by (simp add: Timer_stop_def time_now_def Let_def)

text \<open>
  Claim C3. A timer that was never started (fresh from its constructor, or any timer
  whose start time is unset) raises \<^verbatim>\<open>RuntimeError('Timer has not started.')\<close> on
  \<^verbatim>\<open>stop()\<close>, and a timer with no elapsed time raises \<^verbatim>\<open>RuntimeError('No data recorded.')\<close>
  on \<^verbatim>\<open>send()\<close>; the timer and the world are left as they were. In a cycle \<^verbatim>\<open>start()\<close>,
  \<^verbatim>\<open>stop(send=False)\<close>, \<^verbatim>\<open>send()\<close>, the stop succeeds, the send is one call of the owning
  client's \<^verbatim>\<open>timing\<close> with the stat, the elapsed time and the rate, and every further
  \<^verbatim>\<open>send()\<close> raises \<^verbatim>\<open>RuntimeError('Already sent data.')\<close>. After \<^verbatim>\<open>start()\<close> and \<^verbatim>\<open>stop()\<close>,
  which sends by itself, every \<^verbatim>\<open>send()\<close> raises that error.
\<close>

theorem timer_protocol_errors:
  "Timer_stop rt (Timer_init client stat rate) send w =
     (Inl (RuntimeError ''Timer has not started.''), Timer_init client stat rate, w) \<and>
   Timer_send rt (Timer_init client stat rate) w =
     (Inl (RuntimeError ''No data recorded.''), Timer_init client stat rate, w) \<and>
   (tm_start_time self = None \<longrightarrow>
      Timer_stop rt self send w = (Inl (RuntimeError ''Timer has not started.''), self, w)) \<and>
   (tm_ms self = None \<longrightarrow>
      Timer_send rt self w = (Inl (RuntimeError ''No data recorded.''), self, w)) \<and>
   (let (s1, w1) = Timer_start rt self w;
        (r2, s2, w2) = Timer_stop rt s1 False w1;
        (r3, s3, w3) = Timer_send rt s2 w2
    in r2 = Inr () \<and>
       (\<exists>ms. tm_ms s2 = Some ms \<and>
          (r3, w3) = timing rt (tm_client self) (tm_stat self) (PyFloat ms) (tm_rate self) w2) \<and>
       (\<forall>w4. Timer_send rt s3 w4 = (Inl (RuntimeError ''Already sent data.''), s3, w4))) \<and>
   (let (s1, w1) = Timer_start rt self w;
        (r2, s2, w2) = Timer_stop rt s1 True w1
    in (\<exists>ms. tm_ms s2 = Some ms \<and>
          (r2, w2) = timing rt (tm_client self) (tm_stat self) (PyFloat ms) (tm_rate self)
                       (w1\<lparr>clock_calls := Suc (clock_calls w1)\<rparr>)) \<and>
       (\<forall>w4. Timer_send rt s2 w4 = (Inl (RuntimeError ''Already sent data.''), s2, w4)))"
proof (intro conjI impI)
  show "Timer_stop rt (Timer_init client stat rate) send w =
     (Inl (RuntimeError ''Timer has not started.''), Timer_init client stat rate, w)"
    by (simp add: Timer_stop_not_started Timer_init_def)
  show "Timer_send rt (Timer_init client stat rate) w =
     (Inl (RuntimeError ''No data recorded.''), Timer_init client stat rate, w)"
    by (simp add: Timer_send_no_data Timer_init_def)
next
  assume "tm_start_time self = None"
  then show "Timer_stop rt self send w = (Inl (RuntimeError ''Timer has not started.''), self, w)"
    by (rule Timer_stop_not_started)
next
  assume "tm_ms self = None"
  then show "Timer_send rt self w = (Inl (RuntimeError ''No data recorded.''), self, w)"
    by (rule Timer_send_no_data)
next
  show "let (s1, w1) = Timer_start rt self w;
        (r2, s2, w2) = Timer_stop rt s1 False w1;
        (r3, s3, w3) = Timer_send rt s2 w2
    in r2 = Inr () \<and>
       (\<exists>ms. tm_ms s2 = Some ms \<and>
          (r3, w3) = timing rt (tm_client self) (tm_stat self) (PyFloat ms) (tm_rate self) w2) \<and>
       (\<forall>w4. Timer_send rt s3 w4 = (Inl (RuntimeError ''Already sent data.''), s3, w4))"
    by (simp add: Timer_start_eq Timer_stop_started Timer_send_first Timer_send_already Let_def)
next
  show "let (s1, w1) = Timer_start rt self w;
        (r2, s2, w2) = Timer_stop rt s1 True w1
    in (\<exists>ms. tm_ms s2 = Some ms \<and>
          (r2, w2) = timing rt (tm_client self) (tm_stat self) (PyFloat ms) (tm_rate self)
                       (w1\<lparr>clock_calls := Suc (clock_calls w1)\<rparr>)) \<and>
       (\<forall>w4. Timer_send rt s2 w4 = (Inl (RuntimeError ''Already sent data.''), s2, w4))"
    by (simp add: Timer_start_eq Timer_stop_started Timer_send_first Timer_send_already Let_def)
qed

lemmas timer_simps = Timer_start_eq Timer_stop_started Timer_send_first Timer_send_already
  Timer_send_no_data Timer_stop_not_started Timer_init_def foo_timer_def thousand_def
  float_f6.simps round_half_even_def frac6_def

text \<open>The theorem at the fresh timer \<^verbatim>\<open>cl.timer('foo')\<close>.\<close>

theorem timer_protocol_errors_witness:
  "tm_start_time foo_timer = None \<and> tm_ms foo_timer = None \<and>
   fst (Timer_stop (test_runtime (PyInt (- 1))) foo_timer True world0)
     = Inl (RuntimeError ''Timer has not started.'') \<and>
   fst (Timer_send (test_runtime (PyInt (- 1))) foo_timer world0)
     = Inl (RuntimeError ''No data recorded.'')"
  using timer_protocol_errors [where self = foo_timer and rt = "test_runtime (PyInt (- 1))"
      and w = world0 and send = True]
  by (simp add: foo_timer_def Timer_init_def)

text \<open>
  \<^verbatim>\<open>test_timer_object_no_send\<close> and \<^verbatim>\<open>test_timer_object_no_send_twice\<close>, with clock
  readings 1.0 and 1.5.
\<close>

lemma test_timer_object_no_send:
  "(let rt = test_runtime (PyInt (- 1));
        (s1, w1) = Timer_start rt foo_timer world0;
        (r2, s2, w2) = Timer_stop rt s1 False w1;
        (r3, s3, w3) = Timer_send rt s2 w2
    in sendto_calls w2 = [] \<and> r3 = Inr () \<and>
       sendto_calls w3 = [(0, ''foo:500.000000|ms'', ADDR)] \<and>
       fst (Timer_send rt s3 w3) = Inl (RuntimeError ''Already sent data.''))"
  by (simp add: timer_simps client_simps fixture_simps Let_def)

section \<open>The timer as a scope\<close>

lemma with_timer_eq:
  "with_timer rt self body w =
     (let (handle, w1) = Timer_start rt self w;
          (r, self2, w2) = body handle w1;
          (x, self3, w3) = Timer_stop rt self2 True w2
      in (case x of
            Inl err \<Rightarrow> Inl err
          | Inr u \<Rightarrow> (case r of Inl err \<Rightarrow> Inl err | Inr v \<Rightarrow> Inr (Some v)),
          self3, w3))"
  by (simp add: with_timer_def Timer_enter_def Timer_exit_def Let_def split_beta
           split: sum.split)

text \<open>
  Claim C2, as the code has it. Entering the scope calls \<^verbatim>\<open>start()\<close> and returns the
  timer, whose elapsed-milliseconds field is unset. Leaving the scope, on normal exit
  and on an exception of the scoped code alike, calls \<^verbatim>\<open>stop()\<close> with auto-send; an
  exception raised by that call propagates in place of the outcome of the scoped code.
  Provided the scoped code has left the timer as \<^verbatim>\<open>start()\<close> set it and the call of the
  client's \<^verbatim>\<open>timing\<close> made on exit returns normally, exactly that one call of \<^verbatim>\<open>timing\<close>
  is made after the scoped code, the elapsed-milliseconds field is numeric after exit,
  and an exception raised by the scoped code propagates unchanged.
\<close>

theorem timer_scope:
  "Timer_enter rt self w = Timer_start rt self w \<and>
   tm_ms (fst (Timer_enter rt self w)) = None \<and>
   with_timer rt self body w =
     (let (handle, w1) = Timer_start rt self w;
          (r, self2, w2) = body handle w1;
          (x, self3, w3) = Timer_stop rt self2 True w2
      in (case x of
            Inl err \<Rightarrow> Inl err
          | Inr u \<Rightarrow> (case r of Inl err \<Rightarrow> Inl err | Inr v \<Rightarrow> Inr (Some v)),
          self3, w3)) \<and>
   (Timer_enter rt self w = (handle, w1) \<and> body handle w1 = (r, handle, w2) \<and>
    ms = float_mul rt thousand (float_sub rt (clock rt (clock_calls w2)) (clock rt (clock_calls w))) \<and>
    timing rt (tm_client self) (tm_stat self) (PyFloat ms) (tm_rate self)
      (w2\<lparr>clock_calls := Suc (clock_calls w2)\<rparr>) = (Inr (), w3) \<longrightarrow>
      with_timer rt self body w =
        (case r of Inl err \<Rightarrow> Inl err | Inr v \<Rightarrow> Inr (Some v),
         handle\<lparr>tm_ms := Some ms, tm_sent := True\<rparr>, w3))"
proof (intro conjI impI)
  show "Timer_enter rt self w = Timer_start rt self w"
    by (simp add: Timer_enter_def)
  show "tm_ms (fst (Timer_enter rt self w)) = None"
    by (simp add: Timer_enter_def Timer_start_eq)
  show "with_timer rt self body w =
     (let (handle, w1) = Timer_start rt self w;
          (r, self2, w2) = body handle w1;
          (x, self3, w3) = Timer_stop rt self2 True w2
      in (case x of
            Inl err \<Rightarrow> Inl err
          | Inr u \<Rightarrow> (case r of Inl err \<Rightarrow> Inl err | Inr v \<Rightarrow> Inr (Some v)),
          self3, w3))"
    by (rule with_timer_eq)
next
  assume a: "Timer_enter rt self w = (handle, w1) \<and> body handle w1 = (r, handle, w2) \<and>
    ms = float_mul rt thousand (float_sub rt (clock rt (clock_calls w2)) (clock rt (clock_calls w))) \<and>
    timing rt (tm_client self) (tm_stat self) (PyFloat ms) (tm_rate self)
      (w2\<lparr>clock_calls := Suc (clock_calls w2)\<rparr>) = (Inr (), w3)"
  then have start: "Timer_start rt self w = (handle, w1)"
    by (simp add: Timer_enter_def)
  then have h: "handle = self\<lparr>tm_ms := None, tm_sent := False,
      tm_start_time := Some (clock rt (clock_calls w))\<rparr>"
    by (simp add: Timer_start_eq)
  have st: "tm_start_time handle = Some (clock rt (clock_calls w))"
    and cl: "tm_client handle = tm_client self" "tm_stat handle = tm_stat self"
      "tm_rate handle = tm_rate self" and ns: "\<not> tm_sent handle"
    by (simp_all add: h)
  from a have tim: "timing rt (tm_client self) (tm_stat self) (PyFloat ms) (tm_rate self)
      (w2\<lparr>clock_calls := Suc (clock_calls w2)\<rparr>) = (Inr (), w3)" by blast
  from a have msdef: "float_mul rt thousand (float_sub rt (clock rt (clock_calls w2)) (clock rt (clock_calls w))) = ms"
    by simp
  have stop: "Timer_stop rt handle True w2 = (Inr (), handle\<lparr>tm_ms := Some ms, tm_sent := True\<rparr>, w3)"
    by (simp add: Timer_stop_started [OF st] Let_def msdef Timer_send_first ns cl tim)
  from a have b: "body handle w1 = (r, handle, w2)" by simp
  show "with_timer rt self body w =
        (case r of Inl err \<Rightarrow> Inl err | Inr v \<Rightarrow> Inr (Some v),
         handle\<lparr>tm_ms := Some ms, tm_sent := True\<rparr>, w3)"
    by (simp add: with_timer_eq start b stop)
qed

text \<open>
  The theorem at \<^verbatim>\<open>test_timer_context_exceptions\<close>: the body raises \<^verbatim>\<open>socket.timeout\<close>, one
  datagram is sent and the error propagates.
\<close>

theorem timer_scope_witness:
  "(let rt = test_runtime (PyInt (- 1));
        handle = foo_timer\<lparr>tm_start_time := Some (Finite False 2 (- 1))\<rparr>;
        w1 = world0\<lparr>clock_calls := 1\<rparr>;
        ms = Finite False 1000 (- 1);
        w3 = world0\<lparr>clock_calls := 2, sendto_calls := [(0, ''foo:500.000000|ms'', ADDR)]\<rparr>
    in Timer_enter rt foo_timer world0 = (handle, w1) \<and>
       raising_body SocketTimeout handle w1 = (Inl SocketTimeout, handle, w1) \<and>
       ms = float_mul rt thousand (float_sub rt (clock rt (clock_calls w1)) (clock rt (clock_calls world0))) \<and>
       timing rt (tm_client foo_timer) (tm_stat foo_timer) (PyFloat ms) (tm_rate foo_timer)
         (w1\<lparr>clock_calls := Suc (clock_calls w1)\<rparr>) = (Inr (), w3) \<and>
       with_timer rt foo_timer (raising_body SocketTimeout) world0 =
         (Inl SocketTimeout, handle\<lparr>tm_ms := Some ms, tm_sent := True\<rparr>, w3))"
  using timer_scope [where rt = "test_runtime (PyInt (- 1))" and self = foo_timer and w = world0
      and body = "raising_body SocketTimeout"
      and handle = "foo_timer\<lparr>tm_start_time := Some (Finite False 2 (- 1))\<rparr>"
      and ?w1.0 = "world0\<lparr>clock_calls := 1\<rparr>" and ?w2.0 = "world0\<lparr>clock_calls := 1\<rparr>"
      and r = "Inl SocketTimeout" and ms = "Finite False 1000 (- 1)"
      and ?w3.0 = "world0\<lparr>clock_calls := 2, sendto_calls := [(0, ''foo:500.000000|ms'', ADDR)]\<rparr>"]
  by (simp add: Timer_enter_def raising_body_def timer_simps client_simps fixture_simps Let_def)

text \<open>
  The claim as stated fails in two ways. When the scoped code stops the timer itself
  and then raises \<^verbatim>\<open>ValueError\<close>, the \<^verbatim>\<open>stop()\<close> made on exit raises
  \<^verbatim>\<open>RuntimeError('Already sent data.')\<close>, and the caller receives that error. When the
  timer's stat name is not ASCII and the scoped code raises \<^verbatim>\<open>ValueError\<close>, the caller
  receives the \<^verbatim>\<open>UnicodeEncodeError\<close> of the send made on exit.
\<close>

theorem scope_error_replaced:
  "fst (with_timer (test_runtime (PyInt (- 1))) foo_timer
          (stopping_body (test_runtime (PyInt (- 1))) ValueError) world0)
     = Inl (RuntimeError ''Already sent data.'') \<and>
   fst (with_timer (test_runtime (PyInt (- 1))) cafe_timer (raising_body ValueError) world0)
     = Inl UnicodeEncodeError"
  by (simp add: with_timer_eq stopping_body_def raising_body_def cafe_timer_def timer_simps
        client_simps fixture_simps Let_def)

text \<open>
  \<^verbatim>\<open>test_timer_capture\<close> and \<^verbatim>\<open>test_timer_manager\<close>: the elapsed time is unset inside the
  scope and a float after it, and one datagram is sent.
\<close>

lemma test_timer_capture:
  "(let rt = test_runtime (PyInt (- 1));
        (handle, w1) = Timer_enter rt foo_timer world0;
        (r, t, w) = with_timer rt foo_timer pass_body world0
    in tm_ms handle = None \<and> r = Inr (Some ()) \<and> tm_ms t = Some (Finite False 1000 (- 1)) \<and>
       sendto_calls w = [(0, ''foo:500.000000|ms'', ADDR)])"
  by (simp add: with_timer_eq Timer_enter_def pass_body_def timer_simps client_simps fixture_simps
        Let_def)

section \<open>The timer as a decorator\<close>

lemma wrapped_eq:
  "wrapped rt self f args w =
     (let w1 = w\<lparr>clock_calls := Suc (clock_calls w)\<rparr>;
          (r, w2) = f args w1;
          w3 = w2\<lparr>clock_calls := Suc (clock_calls w2)\<rparr>;
          ms = float_mul rt thousand (float_sub rt (clock rt (clock_calls w2)) (clock rt (clock_calls w)));
          (x, w4) = timing rt (tm_client self) (tm_stat self) (PyFloat ms) (tm_rate self) w3
      in (case x of Inl err \<Rightarrow> Inl err | Inr u \<Rightarrow> r, w4))"
  by (simp add: wrapped_def time_now_def Let_def split_beta split: sum.split)

text \<open>
  Claim C4, as the code has it. An invocation of the wrapped callable applies the
  original callable once, to the arguments as given. Whether it returns or raises, the
  client's \<^verbatim>\<open>timing\<close> is then called with the elapsed time between the two clock
  readings around the call. When that call of \<^verbatim>\<open>timing\<close> returns normally, the outcome
  of the callable, its return value or its error, is passed to the caller unchanged.
  When \<^verbatim>\<open>timing\<close> itself raises, its error propagates in place of that outcome.
\<close>

theorem wrapped_passes_through:
  "(f args (w\<lparr>clock_calls := Suc (clock_calls w)\<rparr>) = (r, w2) \<and>
    ms = float_mul rt thousand (float_sub rt (clock rt (clock_calls w2)) (clock rt (clock_calls w))) \<and>
    timing rt (tm_client self) (tm_stat self) (PyFloat ms) (tm_rate self)
      (w2\<lparr>clock_calls := Suc (clock_calls w2)\<rparr>) = (Inr (), w4) \<longrightarrow>
      wrapped rt self f args w = (r, w4)) \<and>
   (f args (w\<lparr>clock_calls := Suc (clock_calls w)\<rparr>) = (r, w2) \<and>
    ms = float_mul rt thousand (float_sub rt (clock rt (clock_calls w2)) (clock rt (clock_calls w))) \<and>
    timing rt (tm_client self) (tm_stat self) (PyFloat ms) (tm_rate self)
      (w2\<lparr>clock_calls := Suc (clock_calls w2)\<rparr>) = (Inl err, w4) \<longrightarrow>
      wrapped rt self f args w = (Inl err, w4))"
  by (auto simp: wrapped_eq Let_def)

text \<open>
  The theorem at \<^verbatim>\<open>test_timer_decorator\<close> (\<^verbatim>\<open>foo(4, 2)\<close> returns \<^verbatim>\<open>[4, 2]\<close>), at
  \<^verbatim>\<open>test_timer_decorator_exceptions\<close> (the \<^verbatim>\<open>ValueError\<close> propagates), and at a timer
  whose stat name is not ASCII.
\<close>

theorem wrapped_passes_through_witness:
  "(let rt = test_runtime (PyInt (- 1));
        w2 = world0\<lparr>clock_calls := 1\<rparr>;
        ms = Finite False 1000 (- 1);
        w4 = world0\<lparr>clock_calls := 2, sendto_calls := [(0, ''foo:500.000000|ms'', ADDR)]\<rparr>
    in foo_fn (4, 2) (world0\<lparr>clock_calls := Suc (clock_calls world0)\<rparr>) = (Inr [4, 2], w2) \<and>
       raising_fn ValueError () (world0\<lparr>clock_calls := Suc (clock_calls world0)\<rparr>) = (Inl ValueError, w2) \<and>
       ms = float_mul rt thousand (float_sub rt (clock rt (clock_calls w2)) (clock rt (clock_calls world0))) \<and>
       timing rt (tm_client foo_timer) (tm_stat foo_timer) (PyFloat ms) (tm_rate foo_timer)
         (w2\<lparr>clock_calls := Suc (clock_calls w2)\<rparr>) = (Inr (), w4) \<and>
       wrapped rt foo_timer foo_fn (4, 2) world0 = (Inr [4, 2], w4) \<and>
       wrapped rt foo_timer (raising_fn ValueError) () world0 = (Inl ValueError, w4) \<and>
       timing rt (tm_client cafe_timer) (tm_stat cafe_timer) (PyFloat ms) (tm_rate cafe_timer)
         (w2\<lparr>clock_calls := Suc (clock_calls w2)\<rparr>)
         = (Inl UnicodeEncodeError, world0\<lparr>clock_calls := 2\<rparr>) \<and>
       wrapped rt cafe_timer foo_fn (4, 2) world0 = (Inl UnicodeEncodeError, world0\<lparr>clock_calls := 2\<rparr>))"
  using wrapped_passes_through [where rt = "test_runtime (PyInt (- 1))" and self = foo_timer
      and w = world0 and f = foo_fn and args = "(4, 2)" and r = "Inr [4, 2]"
      and ?w2.0 = "world0\<lparr>clock_calls := 1\<rparr>" and ms = "Finite False 1000 (- 1)"
      and ?w4.0 = "world0\<lparr>clock_calls := 2, sendto_calls := [(0, ''foo:500.000000|ms'', ADDR)]\<rparr>"]
    wrapped_passes_through [where rt = "test_runtime (PyInt (- 1))" and self = foo_timer
      and w = world0 and f = "raising_fn ValueError" and args = "()" and r = "Inl ValueError"
      and ?w2.0 = "world0\<lparr>clock_calls := 1\<rparr>" and ms = "Finite False 1000 (- 1)"
      and ?w4.0 = "world0\<lparr>clock_calls := 2, sendto_calls := [(0, ''foo:500.000000|ms'', ADDR)]\<rparr>"]
    wrapped_passes_through [where rt = "test_runtime (PyInt (- 1))" and self = cafe_timer
      and w = world0 and f = foo_fn and args = "(4, 2)" and r = "Inr [4, 2]"
      and ?w2.0 = "world0\<lparr>clock_calls := 1\<rparr>" and ms = "Finite False 1000 (- 1)"
      and ?w4.0 = "world0\<lparr>clock_calls := 2\<rparr>" and err = UnicodeEncodeError]
  by (simp add: foo_fn_def raising_fn_def cafe_timer_def timer_simps client_simps fixture_simps Let_def)

text \<open>
  The claim as stated fails at a timer whose stat name is not ASCII: the error of the
  callable is replaced, and a return value is lost, by the \<^verbatim>\<open>UnicodeEncodeError\<close> of the
  send.
\<close>

theorem wrapped_error_replaced:
  "fst (wrapped (test_runtime (PyInt (- 1))) cafe_timer (raising_fn ValueError) () world0)
     = Inl UnicodeEncodeError \<and>
   fst (wrapped (test_runtime (PyInt (- 1))) cafe_timer foo_fn (4, 2) world0)
     = Inl UnicodeEncodeError"
  by (simp add: wrapped_eq foo_fn_def raising_fn_def cafe_timer_def timer_simps client_simps
        fixture_simps Let_def)

text \<open>Constructing a timer is counted; sending a stat constructs none.\<close>

lemma timer_constructs:
  "timer self stat rate w =
     (Timer_init self stat rate, w\<lparr>timers_created := Suc (timers_created w)\<rparr>)"
  by (simp add: timer_def)

lemma StatsClient_send_timers:
  "timers_created (snd (StatsClient_send rt self data w)) = timers_created w"
  by (simp add: StatsClient_send_def Let_def split: sum.split option.split)

lemma send_stat_timers:
  "timers_created (snd (send_stat rt self stat value rate w)) = timers_created w"
  by (cases "py_lt rate (PyInt 1)")
     (simp_all add: send_stat_full_rate send_stat_sampled StatsClient_send_timers)

lemma timing_timers: "timers_created (snd (timing rt self stat delta rate w)) = timers_created w"
  by (simp add: timing_def send_stat_timers split: sum.split)

lemma wrapped_in_store_eq:
  "wrapped_in_store rt ref f args (h, w) =
     (let w1 = w\<lparr>clock_calls := Suc (clock_calls w)\<rparr>;
          (r, h2, w2) = f args (h, w1);
          w3 = w2\<lparr>clock_calls := Suc (clock_calls w2)\<rparr>;
          ms = float_mul rt thousand (float_sub rt (clock rt (clock_calls w2)) (clock rt (clock_calls w)));
          (x, w4) = timing rt (tm_client (h2 ref)) (tm_stat (h2 ref)) (PyFloat ms) (tm_rate (h2 ref)) w3
      in (case x of Inl err \<Rightarrow> Inl err | Inr u \<Rightarrow> r, h2, w4))"
  by (simp add: wrapped_in_store_def time_now_def Let_def split_beta split: sum.split)

lemma wrapped_in_store_outside:
  "wrapped_in_store rt ref (outside f) args (h, w) =
     (fst (wrapped rt (h ref) f args w), h, snd (wrapped rt (h ref) f args w))"
  by (simp add: wrapped_in_store_eq wrapped_eq outside_def Let_def split_beta split: sum.split)

lemma wrapped_in_store_frame:
  "fst (snd (wrapped_in_store rt ref f args (h, w))) =
     fst (snd (f args (h, w\<lparr>clock_calls := Suc (clock_calls w)\<rparr>))) \<and>
   timers_created (snd (snd (wrapped_in_store rt ref f args (h, w)))) =
     timers_created (snd (snd (f args (h, w\<lparr>clock_calls := Suc (clock_calls w)\<rparr>))))"
  by (simp add: wrapped_in_store_eq Let_def split_beta timing_timers)

lemma call_each_in_store_frame:
  assumes "\<forall>a s. fst (snd (f a s)) ref = fst s ref \<and>
                 timers_created (snd (snd (f a s))) = timers_created (snd s)"
  shows "fst (call_each_in_store (wrapped_in_store rt ref f) argss s) ref = fst s ref \<and>
         timers_created (snd (call_each_in_store (wrapped_in_store rt ref f) argss s)) =
           timers_created (snd s)"
proof (induction argss arbitrary: s)
  case Nil
  show ?case by simp
next
  case (Cons a argss)
  obtain h w where s: "s = (h, w)" by (cases s)
  define s1 where "s1 = snd (wrapped_in_store rt ref f a (h, w))"
  have "fst s1 ref = fst (snd (f a (h, w\<lparr>clock_calls := Suc (clock_calls w)\<rparr>))) ref"
    by (simp add: s1_def wrapped_in_store_frame)
  also have "\<dots> = h ref" using assms by simp
  finally have obj: "fst s1 ref = h ref" .
  have "timers_created (snd s1) =
      timers_created (snd (snd (f a (h, w\<lparr>clock_calls := Suc (clock_calls w)\<rparr>))))"
    by (simp add: s1_def wrapped_in_store_frame)
  also have "\<dots> = timers_created w" using assms by simp
  finally have cnt: "timers_created (snd s1) = timers_created w" .
  from Cons.IH [of s1] obj cnt show ?case
    by (simp add: s s1_def)
qed

lemma send_in_store_no_data:
  "tm_ms (fst s ref) = None \<Longrightarrow>
   send_in_store rt ref s = (Inl (RuntimeError ''No data recorded.''), s)"
  by (simp add: send_in_store_def Timer_send_no_data)

text \<open>
  The count of timers constructed sees a callable that constructs one: an invocation
  of the decorated \<open>timer_making_fn\<close> raises the count by the one timer that the
  callable made, which it returns, and places it in the store.
\<close>

lemma wrapped_in_store_sees_construction:
  "(let rt = test_runtime (PyInt (- 1));
        (r, h, w) = wrapped_in_store rt 0 (timer_making_fn (udp_client None)) ()
                      (\<lambda>r. foo_timer, world0\<lparr>timers_created := 1\<rparr>)
    in r = Inr 1 \<and> timers_created w = 2 \<and>
       h 1 = Timer_init (udp_client None) ''bar'' (PyInt 1) \<and> h 0 = foo_timer)"
  by (simp add: wrapped_in_store_eq timer_making_fn_def timer_in_store_def timer_def timer_simps
        client_simps fixture_simps Let_def)

text \<open>
  Claim C10, as the code has it. An invocation of a decorated function reads none of
  the timer's mutable fields: with any other elapsed time, sent flag and start time in
  the timer it does the same. It times itself by two clock readings of its own and
  calls the client's \<^verbatim>\<open>timing\<close> directly: the world after the invocation is the world
  after that call of \<^verbatim>\<open>timing\<close>. With the timer in a store that the decorated callable
  can reach, the wrapper writes no timer and constructs none: after an invocation the
  store and the number of timers constructed are what the callable left. So, provided
  the callable itself leaves the decorating timer as it was and constructs no timer,
  after any number of invocations of a function decorated with a fresh timer no timer
  has been constructed, the timer is as its constructor made it, its elapsed field is
  still unset, and \<^verbatim>\<open>send()\<close> on it still raises \<^verbatim>\<open>RuntimeError('No data recorded.')\<close>.
\<close>

theorem wrapped_leaves_timer_alone:
  "wrapped rt (self\<lparr>tm_ms := ms, tm_sent := sent, tm_start_time := st\<rparr>) f args w =
     wrapped rt self f args w \<and>
   (let w1 = w\<lparr>clock_calls := Suc (clock_calls w)\<rparr>;
        w2 = snd (f args w1);
        elapsed = float_mul rt thousand (float_sub rt (clock rt (clock_calls w2)) (clock rt (clock_calls w)))
    in snd (wrapped rt self f args w) =
         snd (timing rt (tm_client self) (tm_stat self) (PyFloat elapsed) (tm_rate self)
                (w2\<lparr>clock_calls := Suc (clock_calls w2)\<rparr>)) \<and>
       timers_created (snd (wrapped rt self f args w)) = timers_created w2) \<and>
   wrapped_in_store rt ref (outside f) args (h, w) =
     (fst (wrapped rt (h ref) f args w), h, snd (wrapped rt (h ref) f args w)) \<and>
   fst (snd (wrapped_in_store rt ref g args (h, w))) =
     fst (snd (g args (h, w\<lparr>clock_calls := Suc (clock_calls w)\<rparr>))) \<and>
   timers_created (snd (snd (wrapped_in_store rt ref g args (h, w)))) =
     timers_created (snd (snd (g args (h, w\<lparr>clock_calls := Suc (clock_calls w)\<rparr>)))) \<and>
   ((\<forall>a s. fst (snd (g a s)) ref = fst s ref \<and>
           timers_created (snd (snd (g a s))) = timers_created (snd s)) \<and>
    h ref = Timer_init client stat rate \<longrightarrow>
      (let s' = call_each_in_store (wrapped_in_store rt ref g) argss (h, w)
       in fst s' ref = Timer_init client stat rate \<and>
          tm_ms (fst s' ref) = None \<and>
          send_in_store rt ref s' = (Inl (RuntimeError ''No data recorded.''), s') \<and>
          timers_created (snd s') = timers_created w))"
proof (intro conjI impI)
  show "wrapped rt (self\<lparr>tm_ms := ms, tm_sent := sent, tm_start_time := st\<rparr>) f args w =
     wrapped rt self f args w"
    by (simp add: wrapped_def)
  show "let w1 = w\<lparr>clock_calls := Suc (clock_calls w)\<rparr>;
        w2 = snd (f args w1);
        elapsed = float_mul rt thousand (float_sub rt (clock rt (clock_calls w2)) (clock rt (clock_calls w)))
    in snd (wrapped rt self f args w) =
         snd (timing rt (tm_client self) (tm_stat self) (PyFloat elapsed) (tm_rate self)
                (w2\<lparr>clock_calls := Suc (clock_calls w2)\<rparr>)) \<and>
       timers_created (snd (wrapped rt self f args w)) = timers_created w2"
    by (simp add: wrapped_eq Let_def split_beta timing_timers)
  show "wrapped_in_store rt ref (outside f) args (h, w) =
     (fst (wrapped rt (h ref) f args w), h, snd (wrapped rt (h ref) f args w))"
    by (rule wrapped_in_store_outside)
  show "fst (snd (wrapped_in_store rt ref g args (h, w))) =
     fst (snd (g args (h, w\<lparr>clock_calls := Suc (clock_calls w)\<rparr>)))"
    by (simp add: wrapped_in_store_frame)
  show "timers_created (snd (snd (wrapped_in_store rt ref g args (h, w)))) =
     timers_created (snd (snd (g args (h, w\<lparr>clock_calls := Suc (clock_calls w)\<rparr>))))"
    by (simp add: wrapped_in_store_frame)
next
  assume a: "(\<forall>a s. fst (snd (g a s)) ref = fst s ref \<and>
           timers_created (snd (snd (g a s))) = timers_created (snd s)) \<and>
    h ref = Timer_init client stat rate"
  define s' where "s' = call_each_in_store (wrapped_in_store rt ref g) argss (h, w)"
  from a have frame: "\<forall>a s. fst (snd (g a s)) ref = fst s ref \<and>
           timers_created (snd (snd (g a s))) = timers_created (snd s)" by blast
  from call_each_in_store_frame [OF frame, of rt argss "(h, w)"]
  have obj: "fst s' ref = h ref" and cnt: "timers_created (snd s') = timers_created w"
    by (simp_all add: s'_def)
  from a obj have init: "fst s' ref = Timer_init client stat rate" by simp
  then have unset: "tm_ms (fst s' ref) = None" by (simp add: Timer_init_def)
  then have "send_in_store rt ref s' = (Inl (RuntimeError ''No data recorded.''), s')"
    by (rule send_in_store_no_data)
  with init unset cnt
  show "let s' = call_each_in_store (wrapped_in_store rt ref g) argss (h, w)
       in fst s' ref = Timer_init client stat rate \<and>
          tm_ms (fst s' ref) = None \<and>
          send_in_store rt ref s' = (Inl (RuntimeError ''No data recorded.''), s') \<and>
          timers_created (snd s') = timers_created w"
    by (simp add: s'_def Let_def)
qed

text \<open>
  The theorem at \<^verbatim>\<open>test_timer_decorator\<close>: the function \<^verbatim>\<open>foo\<close>, which has no reference to
  the timer, decorated with \<^verbatim>\<open>cl.timer('foo')\<close> and invoked twice.
\<close>

theorem wrapped_leaves_timer_alone_witness:
  "(\<forall>a s. fst (snd (outside foo_fn a s)) 0 = fst s 0 \<and>
          timers_created (snd (snd (outside foo_fn a s))) = timers_created (snd s)) \<and>
   (\<lambda>r. foo_timer) (0::nat) = Timer_init (udp_client None) ''foo'' (PyInt 1) \<and>
   (let s' = call_each_in_store (wrapped_in_store (test_runtime (PyInt (- 1))) 0 (outside foo_fn))
               [(4, 2), (5, 6)] (\<lambda>r. foo_timer, world0)
    in fst s' 0 = foo_timer \<and> tm_ms (fst s' 0) = None \<and>
       fst (send_in_store (test_runtime (PyInt (- 1))) 0 s') = Inl (RuntimeError ''No data recorded.'') \<and>
       timers_created (snd s') = 0 \<and>
       sendto_calls (snd s') =
         [(0, ''foo:500.000000|ms'', ADDR), (0, ''foo:500.000000|ms'', ADDR)])"
proof -
  have frame: "\<forall>a s. fst (snd (outside foo_fn a s)) 0 = fst s 0 \<and>
          timers_created (snd (snd (outside foo_fn a s))) = timers_created (snd s)"
    by (simp add: outside_def foo_fn_def)
  have calls: "sendto_calls (snd (call_each_in_store
        (wrapped_in_store (test_runtime (PyInt (- 1))) 0 (outside foo_fn))
        [(4, 2), (5, 6)] (\<lambda>r. foo_timer, world0))) =
      [(0, ''foo:500.000000|ms'', ADDR), (0, ''foo:500.000000|ms'', ADDR)]"
    by (simp add: wrapped_in_store_outside wrapped_eq foo_fn_def timer_simps client_simps
          fixture_simps Let_def)
  note gen = wrapped_leaves_timer_alone [where g = "outside foo_fn" and ref = 0
      and h = "\<lambda>r. foo_timer" and client = "udp_client None" and stat = "''foo''"
      and rate = "PyInt 1" and rt = "test_runtime (PyInt (- 1))" and w = world0
      and argss = "[(4, 2), (5, 6)]",
      THEN conjunct2, THEN conjunct2, THEN conjunct2, THEN conjunct2, THEN conjunct2]
  have fresh: "foo_timer = Timer_init (udp_client None) ''foo'' (PyInt 1)"
    by (simp add: foo_timer_def)
  from frame fresh have "(\<forall>a s. fst (snd (outside foo_fn a s)) 0 = fst s 0 \<and>
          timers_created (snd (snd (outside foo_fn a s))) = timers_created (snd s)) \<and>
      foo_timer = Timer_init (udp_client None) ''foo'' (PyInt 1)"
    by (rule conjI)
  with gen have res: "let s' = call_each_in_store
        (wrapped_in_store (test_runtime (PyInt (- 1))) 0 (outside foo_fn))
        [(4, 2), (5, 6)] (\<lambda>r. foo_timer, world0)
      in fst s' 0 = Timer_init (udp_client None) ''foo'' (PyInt 1) \<and>
         tm_ms (fst s' 0) = None \<and>
         send_in_store (test_runtime (PyInt (- 1))) 0 s' =
           (Inl (RuntimeError ''No data recorded.''), s') \<and>
         timers_created (snd s') = timers_created world0"
    by (rule mp)
  have zero: "timers_created world0 = 0" by (simp add: world0_def)
  show ?thesis
    using frame fresh calls res zero
    by (auto simp: Let_def)
qed

text \<open>
  The claim as stated fails at a decorated callable that uses its own decorating
  timer: after one invocation the timer's elapsed field is set and \<^verbatim>\<open>send()\<close> on it
  succeeds.
\<close>

theorem decorated_callable_uses_timer:
  "(let rt = test_runtime (PyInt (- 1));
        s' = call_each_in_store (wrapped_in_store rt 0 (timer_using_fn rt 0)) [()]
               (\<lambda>r. foo_timer, world0)
    in tm_ms (fst s' 0) = Some (Finite False 1000 (- 1)) \<and>
       fst (send_in_store rt 0 s') = Inr ())"
  by (simp add: wrapped_in_store_eq send_in_store_def timer_using_fn_def timer_simps client_simps
        fixture_simps Let_def)

text \<open>\<^verbatim>\<open>test_timer_decorator\<close>, followed by a \<^verbatim>\<open>send()\<close> on the decorating timer.\<close>

lemma test_timer_decorator:
  "(let rt = test_runtime (PyInt (- 1));
        w' = call_each (Timer_call rt foo_timer foo_fn) [(4, 2), (5, 6)] world0
    in fst (Timer_call rt foo_timer foo_fn (4, 2) world0) = Inr [4, 2] \<and>
       sendto_calls w' = [(0, ''foo:500.000000|ms'', ADDR), (0, ''foo:500.000000|ms'', ADDR)] \<and>
       timers_created w' = 0 \<and>
       fst (Timer_send rt foo_timer w') = Inl (RuntimeError ''No data recorded.''))"
  by (simp add: Timer_call_def wrapped_eq foo_fn_def timer_simps client_simps fixture_simps Let_def)

section \<open>The text of a timing\<close>

lemma digit_char_is_digit: "d < 10 \<Longrightarrow> is_digit (digit_char d)"
proof -
  assume "d < 10"
  then have "d < length ''0123456789''" by simp
  then have "''0123456789'' ! d \<in> set ''0123456789''" by (rule nth_mem)
  then show ?thesis by (simp only: is_digit_def digit_char_def)
qed

lemma nat_str_digits: "list_all is_digit (nat_str n)"
proof (induction n rule: nat_str.induct)
  case (1 n)
  show ?case
  proof (cases "n < 10")
    case True
    then show ?thesis by (simp add: nat_str.simps [of n] digit_char_is_digit)
  next
    case False
    with 1 have "list_all is_digit (nat_str (n div 10))" by simp
    moreover have "is_digit (digit_char (n mod 10))" by (simp add: digit_char_is_digit)
    ultimately show ?thesis using False by (simp add: nat_str.simps [of n])
  qed
qed

lemma nat_str_nonempty: "nat_str n \<noteq> []"
  by (simp add: nat_str.simps [of n])

lemma frac6_shape: "length (frac6 n) = 6 \<and> list_all is_digit (frac6 n)"
  by (simp add: frac6_def digit_char_is_digit)

lemma float_f6_finite:
  "\<exists>sg ip fp. float_f6 (Finite s m e) = sg @ ip @ ''.'' @ fp \<and> (sg = [] \<or> sg = ''-'') \<and>
     ip \<noteq> [] \<and> list_all is_digit ip \<and> length fp = 6 \<and> list_all is_digit fp"
proof -
  define n where "n = (if e \<ge> 0 then m * 2 ^ nat e * 1000000
               else round_half_even (m * 1000000) (2 ^ nat (- e)))"
  have "float_f6 (Finite s m e) =
      (if s then ''-'' else []) @ nat_str (n div 1000000) @ ''.'' @ frac6 (n mod 1000000)"
    by (simp add: n_def Let_def)
  moreover have "(if s then ''-'' else []) = [] \<or> (if s then ''-'' else []) = ''-''" by simp
  ultimately show ?thesis
    using nat_str_nonempty nat_str_digits frac6_shape by blast
qed

lemma bit_length_bound: "n < 2 ^ k \<Longrightarrow> bit_length n \<le> k"
proof (induction n arbitrary: k rule: bit_length.induct)
  case (1 n)
  show ?case
  proof (cases "n = 0")
    case True
    then show ?thesis by (simp add: bit_length.simps [of 0])
  next
    case False
    with "1.prems" obtain j where k: "k = Suc j" by (cases k) auto
    with "1.prems" have "n div 2 < 2 ^ j" by auto
    with False "1.IH" have "bit_length (n div 2) \<le> j" by simp
    with False k show ?thesis by (simp add: bit_length.simps [of n])
  qed
qed

lemma round_half_even_bound: "2 * (round_half_even a d * d) \<le> 2 * a + d"
proof -
  define p where "p = a div d * d"
  define m where "m = a mod d"
  have split: "a = p + m" by (simp add: p_def m_def)
  show ?thesis
  proof (cases "2 * (a mod d) > d \<or> (2 * (a mod d) = d \<and> odd (a div d))")
    case True
    then have "round_half_even a d = a div d + 1" by (simp add: round_half_even_def Let_def)
    then have r: "round_half_even a d * d = p + d" by (simp add: p_def)
    from True have "d \<le> 2 * m" by (auto simp: m_def)
    with split show ?thesis unfolding r by simp
  next
    case False
    then have "round_half_even a d = a div d" by (auto simp add: round_half_even_def Let_def)
    then have r: "round_half_even a d * d = p" by (simp add: p_def)
    from split show ?thesis unfolding r by simp
  qed
qed

lemma int_to_float_finite:
  assumes "\<bar>n\<bar> < 2 ^ 1024 - 2 ^ 970"
  shows "\<exists>s m e. int_to_float n = Inr (Finite s m e)"
proof -
  define a where "a = nat \<bar>n\<bar>"
  define bl where "bl = bit_length a"
  have a: "a < 2 ^ 1024 - 2 ^ 970"
  proof -
    from assms have "int a < 2 ^ 1024 - 2 ^ 970" by (simp add: a_def)
    moreover have "int (2 ^ 1024 - 2 ^ 970) = 2 ^ 1024 - 2 ^ 970" by (simp add: of_nat_diff)
    ultimately have "int a < int (2 ^ 1024 - 2 ^ 970)" by simp
    then show ?thesis by (simp only: of_nat_less_iff)
  qed
  then have "a < 2 ^ 1024" by simp
  then have bl: "bl \<le> 1024" unfolding bl_def by (rule bit_length_bound)
  show ?thesis
  proof (cases "bl \<le> 53")
    case True
    then show ?thesis by (simp add: int_to_float_def Let_def a_def [symmetric] bl_def [symmetric])
  next
    case False
    define sh where "sh = bl - 53"
    define q where "q = round_half_even a (2 ^ sh)"
    from bl have "sh \<le> 971" by (simp add: sh_def)
    then have d: "(2::nat) ^ sh \<le> 2 ^ 971" by (rule power_increasing) simp
    have "2 * (q * 2 ^ sh) \<le> 2 * a + 2 ^ sh" unfolding q_def by (rule round_half_even_bound)
    also have "\<dots> \<le> 2 * a + 2 ^ 971" using d by simp
    also have "\<dots> < 2 * 2 ^ 1024" using a by simp
    finally have "q * 2 ^ sh < 2 ^ 1024" by simp
    then have "\<not> q * 2 ^ sh \<ge> 2 ^ 1024" by simp
    with False show ?thesis
      by (simp add: int_to_float_def Let_def a_def [symmetric] bl_def [symmetric]
            sh_def [symmetric] q_def [symmetric])
  qed
qed

text \<open>
  An \<^verbatim>\<open>int\<close> of magnitude \<open>2^1024 - 2^970\<close> or more does not convert: its rounded value
  reaches \<open>2^1024\<close>.
\<close>

lemma bit_length_gt: "2 ^ k \<le> n \<Longrightarrow> k < bit_length n"
proof (induction n arbitrary: k rule: bit_length.induct)
  case (1 n)
  from "1.prems" have nz: "n \<noteq> 0" by (cases "n = 0") auto
  show ?case
  proof (cases k)
    case 0
    with nz show ?thesis by (simp add: bit_length.simps [of n])
  next
    case (Suc j)
    with "1.prems" have "2 ^ j \<le> n div 2" by auto
    with nz "1.IH" have "j < bit_length (n div 2)" by simp
    with nz Suc show ?thesis by (simp add: bit_length.simps [of n])
  qed
qed

lemma bit_length_less: "n < 2 ^ bit_length n"
proof (induction n rule: bit_length.induct)
  case (1 n)
  show ?case
  proof (cases "n = 0")
    case True
    then show ?thesis by simp
  next
    case False
    with 1 have "n div 2 < 2 ^ bit_length (n div 2)" by simp
    then have "n < 2 * 2 ^ bit_length (n div 2)" by linarith
    with False show ?thesis by (simp add: bit_length.simps [of n])
  qed
qed

lemma bit_length_le_pow: "n \<noteq> 0 \<Longrightarrow> 2 ^ (bit_length n - 1) \<le> n"
  using bit_length_gt [of "bit_length n - 1" n]
  by (cases "2 ^ (bit_length n - 1) \<le> n") (auto simp: bit_length.simps [of n] not_le dest: bit_length_bound)

lemma round_half_even_ge: "a div d \<le> round_half_even a d"
  by (simp add: round_half_even_def Let_def)

lemma int_to_float_overflow_nat:
  assumes big: "2 ^ 1024 - 2 ^ 970 \<le> (a::nat)"
  shows "53 < bit_length a \<and>
    2 ^ 1024 \<le> round_half_even a (2 ^ (bit_length a - 53)) * 2 ^ (bit_length a - 53)"
proof -
  define bl where "bl = bit_length a"
  have "(2::nat) ^ 1023 \<le> 2 ^ 1024 - 2 ^ 970" by simp
  with big have "2 ^ 1023 \<le> a" by linarith
  then have "1023 < bl" unfolding bl_def by (rule bit_length_gt)
  then have bl: "1024 \<le> bl" by simp
  have anz: "a \<noteq> 0" using \<open>2 ^ 1023 \<le> a\<close> by (cases "a = 0") auto
  show ?thesis
  proof (cases "bl = 1024")
    case True
    have alt: "a < 2 ^ 1024" using bit_length_less [of a] True by (simp add: bl_def)
    define q0 where "q0 = a div 2 ^ 971"
    define r where "r = a mod 2 ^ 971"
    have a_eq: "a = q0 * 2 ^ 971 + r" by (simp add: q0_def r_def)
    have q0_hi: "q0 < 2 ^ 53"
    proof -
      have "a < 2 ^ 53 * 2 ^ 971" using alt by simp
      then show ?thesis unfolding q0_def by (simp add: less_mult_imp_div_less)
    qed
    have q0_lo: "2 ^ 53 - 1 \<le> q0"
    proof -
      have "(2 ^ 53 - 1) * 2 ^ 971 \<le> (2::nat) ^ 1024 - 2 ^ 970" by simp
      with big have "(2 ^ 53 - 1) * 2 ^ 971 \<le> a" by linarith
      then have "((2 ^ 53 - 1) * 2 ^ 971) div 2 ^ 971 \<le> a div 2 ^ 971" by (rule div_le_mono)
      then show ?thesis by (simp add: q0_def)
    qed
    from q0_hi q0_lo have q0: "q0 = 2 ^ 53 - 1" by simp
    have oddq: "odd q0" unfolding q0 by simp
    have r_lo: "2 ^ 971 \<le> 2 * r"
    proof -
      have "r = a - (2 ^ 53 - 1) * 2 ^ 971" using a_eq q0 by simp
      moreover have "(2::nat) ^ 1024 - 2 ^ 970 - (2 ^ 53 - 1) * 2 ^ 971 = 2 ^ 970" by simp
      ultimately have "2 ^ 970 \<le> r" using big by linarith
      then show ?thesis by simp
    qed
    have "round_half_even a (2 ^ 971) = q0 + 1"
      using r_lo oddq by (auto simp: round_half_even_def Let_def q0_def r_def)
    then have "round_half_even a (2 ^ 971) * 2 ^ 971 = 2 ^ 1024" by (simp add: q0)
    with True show ?thesis by (simp add: bl_def)
  next
    case False
    with bl have big_bl: "1025 \<le> bl" by simp
    define sh where "sh = bl - 53"
    have p: "2 ^ (bl - 1) \<le> a" using anz unfolding bl_def by (rule bit_length_le_pow)
    have "bl - 1 = 52 + sh" using big_bl by (simp add: sh_def)
    then have "(2::nat) ^ (bl - 1) = 2 ^ 52 * 2 ^ sh" by (simp add: power_add)
    with p have "2 ^ 52 * 2 ^ sh \<le> a" by simp
    then have "(2 ^ 52 * 2 ^ sh) div 2 ^ sh \<le> a div 2 ^ sh" by (rule div_le_mono)
    then have "(2::nat) ^ 52 \<le> a div 2 ^ sh" by simp
    also have "\<dots> \<le> round_half_even a (2 ^ sh)" by (rule round_half_even_ge)
    finally have "2 ^ 52 * 2 ^ sh \<le> round_half_even a (2 ^ sh) * 2 ^ sh" by simp
    moreover have "(2::nat) ^ 1024 \<le> 2 ^ 52 * 2 ^ sh"
    proof -
      have "1024 \<le> 52 + sh" using big_bl by (simp add: sh_def)
      then have "(2::nat) ^ 1024 \<le> 2 ^ (52 + sh)" by (rule power_increasing) simp
      then show ?thesis by (simp only: power_add)
    qed
    ultimately have "2 ^ 1024 \<le> round_half_even a (2 ^ sh) * 2 ^ sh" by (rule order_trans [rotated])
    with big_bl show ?thesis by (simp add: bl_def sh_def)
  qed
qed

lemma int_to_float_overflow:
  assumes "2 ^ 1024 - 2 ^ 970 \<le> \<bar>n\<bar>"
  shows "int_to_float n = Inl OverflowError"
proof -
  define a where "a = nat \<bar>n\<bar>"
  have "int (2 ^ 1024 - 2 ^ 970) = 2 ^ 1024 - 2 ^ 970" by (simp add: of_nat_diff)
  with assms have "int (2 ^ 1024 - 2 ^ 970) \<le> int a" by (simp add: a_def)
  then have "2 ^ 1024 - 2 ^ 970 \<le> a" by (simp only: of_nat_le_iff)
  then have "53 < bit_length a \<and>
    2 ^ 1024 \<le> round_half_even a (2 ^ (bit_length a - 53)) * 2 ^ (bit_length a - 53)"
    by (rule int_to_float_overflow_nat)
  then show ?thesis
    by (simp add: int_to_float_def Let_def a_def [symmetric])
qed

lemma fmt_f6_overflow:
  "2 ^ 1024 - 2 ^ 970 \<le> \<bar>n\<bar> \<Longrightarrow> fmt_f6 (PyInt n) = Inl OverflowError"
  by (simp add: int_to_float_overflow)

lemma fmt_f6_finite:
  assumes "finite_num delta"
  shows "\<exists>sg ip fp. fmt_f6 delta = Inr (sg @ ip @ ''.'' @ fp) \<and> (sg = [] \<or> sg = ''-'') \<and>
     ip \<noteq> [] \<and> list_all is_digit ip \<and> length fp = 6 \<and> list_all is_digit fp"
proof (cases delta)
  case (PyInt n)
  with assms have "\<bar>n\<bar> < 2 ^ 1024 - 2 ^ 970" by simp
  then obtain s m e where "int_to_float n = Inr (Finite s m e)"
    using int_to_float_finite by blast
  then have "fmt_f6 delta = Inr (float_f6 (Finite s m e))" using PyInt by simp
  with float_f6_finite [of s m e] show ?thesis by auto
next
  case (PyFloat x)
  with assms obtain s m e where "x = Finite s m e" by (cases x) auto
  then have "fmt_f6 delta = Inr (float_f6 (Finite s m e))" using PyFloat by simp
  with float_f6_finite [of s m e] show ?thesis by auto
qed

lemmas fmt_simps = fmt_f6.simps float_f6.simps int_to_float_def round_half_even_def frac6_def
  bit_length.simps Let_def

text \<open>
  Claim C7, as the code has it. For every stat name and every finite milliseconds
  value (a finite \<^verbatim>\<open>float\<close>, or an \<^verbatim>\<open>int\<close> of magnitude below \<open>2^1024 - 2^970\<close>),
  \<^verbatim>\<open>timing\<close> renders the value as an optional minus sign, one or more decimal digits, a
  point and exactly six decimal digits, whatever the magnitude: there is no exponent,
  so no scientific notation. \<^verbatim>\<open>timing('foo', 100)\<close> sends \<^verbatim>\<open>foo:100.000000|ms\<close> and
  \<^verbatim>\<open>timing('foo', 1234568901234)\<close> sends \<^verbatim>\<open>foo:1234568901234.000000|ms\<close>.
\<close>

theorem timing_fixed_point:
  "(finite_num delta \<longrightarrow>
      (\<exists>sg ip fp.
         fmt_f6 delta = Inr (sg @ ip @ ''.'' @ fp) \<and> (sg = [] \<or> sg = ''-'') \<and>
         ip \<noteq> [] \<and> list_all is_digit ip \<and> length fp = 6 \<and> list_all is_digit fp \<and>
         timing rt self stat delta rate w =
           send_stat rt self stat (sg @ ip @ ''.'' @ fp @ ''|ms'') rate w)) \<and>
   timing (test_runtime (PyInt (- 1))) (udp_client None) ''foo'' (PyInt 100) (PyInt 1) world0 =
     (Inr (), world0\<lparr>sendto_calls := [(0, ''foo:100.000000|ms'', ADDR)]\<rparr>) \<and>
   timing (test_runtime (PyInt (- 1))) (udp_client None) ''foo'' (PyInt 1234568901234) (PyInt 1)
       world0 =
     (Inr (), world0\<lparr>sendto_calls := [(0, ''foo:1234568901234.000000|ms'', ADDR)]\<rparr>)"
proof (intro conjI impI)
  assume "finite_num delta"
  then obtain sg ip fp where f: "fmt_f6 delta = Inr (sg @ ip @ ''.'' @ fp)"
    and shape: "sg = [] \<or> sg = ''-''" "ip \<noteq> []" "list_all is_digit ip" "length fp = 6"
      "list_all is_digit fp"
    using fmt_f6_finite by blast
  from f have "timing rt self stat delta rate w =
      send_stat rt self stat (sg @ ip @ ''.'' @ fp @ ''|ms'') rate w"
    by (simp add: timing_def)
  with f shape show "\<exists>sg ip fp.
         fmt_f6 delta = Inr (sg @ ip @ ''.'' @ fp) \<and> (sg = [] \<or> sg = ''-'') \<and>
         ip \<noteq> [] \<and> list_all is_digit ip \<and> length fp = 6 \<and> list_all is_digit fp \<and>
         timing rt self stat delta rate w =
           send_stat rt self stat (sg @ ip @ ''.'' @ fp @ ''|ms'') rate w"
    by blast
next
  show "timing (test_runtime (PyInt (- 1))) (udp_client None) ''foo'' (PyInt 100) (PyInt 1) world0 =
     (Inr (), world0\<lparr>sendto_calls := [(0, ''foo:100.000000|ms'', ADDR)]\<rparr>)"
    by (simp add: fmt_simps client_simps fixture_simps)
next
  show "timing (test_runtime (PyInt (- 1))) (udp_client None) ''foo'' (PyInt 1234568901234) (PyInt 1)
       world0 =
     (Inr (), world0\<lparr>sendto_calls := [(0, ''foo:1234568901234.000000|ms'', ADDR)]\<rparr>)"
    by (simp add: fmt_simps client_simps fixture_simps)
qed

text \<open>The theorem at the \<^verbatim>\<open>int\<close> 100 and at the \<^verbatim>\<open>float\<close> \<open>-3/128\<close>.\<close>

theorem timing_fixed_point_witness:
  "finite_num (PyInt 100) \<and> fmt_f6 (PyInt 100) = Inr ([] @ ''100'' @ ''.'' @ ''000000'') \<and>
   finite_num (PyFloat (Finite True 3 (- 7))) \<and>
   fmt_f6 (PyFloat (Finite True 3 (- 7))) = Inr (''-'' @ ''0'' @ ''.'' @ ''023438'')"
  using timing_fixed_point [where delta = "PyInt 100"]
    timing_fixed_point [where delta = "PyFloat (Finite True 3 (- 7))"]
  by (simp add: fmt_simps nat_str.simps digit_char_def)

text \<open>
  The claim as stated fails at the numeric values outside that range: an infinite
  \<^verbatim>\<open>float\<close> is sent as \<^verbatim>\<open>foo:inf|ms\<close> and NaN as \<^verbatim>\<open>foo:nan|ms\<close>, with no fractional
  digits, and the \<^verbatim>\<open>int\<close> \<open>2^1024\<close> raises \<^verbatim>\<open>OverflowError\<close> and sends nothing.
\<close>

theorem timing_infinite_or_huge:
  "timing (test_runtime (PyInt (- 1))) (udp_client None) ''foo'' (PyFloat (Infinity False)) (PyInt 1)
       world0 =
     (Inr (), world0\<lparr>sendto_calls := [(0, ''foo:inf|ms'', ADDR)]\<rparr>) \<and>
   timing (test_runtime (PyInt (- 1))) (udp_client None) ''foo'' (PyFloat NaN) (PyInt 1) world0 =
     (Inr (), world0\<lparr>sendto_calls := [(0, ''foo:nan|ms'', ADDR)]\<rparr>) \<and>
   timing (test_runtime (PyInt (- 1))) (udp_client None) ''foo'' (PyInt (2 ^ 1024)) (PyInt 1) world0 =
     (Inl OverflowError, world0)"
  by (simp add: fmt_simps client_simps fixture_simps)

section \<open>The sampling gate and the four operations\<close>

text \<open>
  Claim C1, as the code has it. \<^verbatim>\<open>incr\<close>, \<^verbatim>\<open>decr\<close> and \<^verbatim>\<open>set\<close> are one call of \<^verbatim>\<open>_send_stat\<close> on
  the value they format, and so is \<^verbatim>\<open>timing\<close> whenever \<^verbatim>\<open>%0.6f\<close> formats its value, which
  it does for every \<^verbatim>\<open>float\<close> and for every \<^verbatim>\<open>int\<close> of magnitude below \<open>2^1024 - 2^970\<close>;
  on a larger \<^verbatim>\<open>int\<close>, \<^verbatim>\<open>timing\<close> raises \<^verbatim>\<open>OverflowError\<close> and changes nothing. For every
  call that formats its value, with sample rate \<open>r\<close>: if \<open>r == 1\<close> no random number is drawn (the
  world, which counts the draws, is unchanged by \<^verbatim>\<open>_prepare\<close>) and exactly one line,
  \<^verbatim>\<open>[prefix.]stat:value\<close> with no rate annotation, is handed to \<^verbatim>\<open>_send\<close>. If \<open>0 < r < 1\<close> one
  random number is drawn; the line is suppressed (nothing is sent) exactly when the
  draw is strictly greater than \<open>r\<close>, and otherwise exactly one line is handed to
  \<^verbatim>\<open>_send\<close>, with \<^verbatim>\<open>|@r\<close> appended to the value.
\<close>

theorem sampling_gate:
  "incr rt self stat count rate w = send_stat rt self stat (py_str rt count @ ''|c'') rate w \<and>
   decr rt self stat count rate w = send_stat rt self stat (py_str rt (py_neg count) @ ''|c'') rate w \<and>
   set_stat rt self stat v rate w = send_stat rt self stat (py_str_val rt v @ ''|s'') rate w \<and>
   (fmt_f6 delta = Inr s \<longrightarrow>
      timing rt self stat delta rate w = send_stat rt self stat (s @ ''|ms'') rate w) \<and>
   fmt_f6 (PyFloat x) = Inr (float_f6 x) \<and>
   (\<bar>n\<bar> < 2 ^ 1024 - 2 ^ 970 \<longrightarrow> (\<exists>t. fmt_f6 (PyInt n) = Inr t)) \<and>
   (2 ^ 1024 - 2 ^ 970 \<le> \<bar>k\<bar> \<longrightarrow>
      timing rt self stat (PyInt k) rate w = (Inl OverflowError, w)) \<and>
   (py_eq rate (PyInt 1) \<longrightarrow>
      prepare rt self stat value rate w = (Some (prefixed self stat @ '':'' @ value), w) \<and>
      send_stat rt self stat value rate w =
        StatsClient_send rt self (prefixed self stat @ '':'' @ value) w) \<and>
   (py_lt (PyInt 0) rate \<and> py_lt rate (PyInt 1) \<longrightarrow>
      prepare rt self stat value rate w =
        (if py_gt (rand_source rt (random_calls w)) rate then None
         else Some (prefixed self stat @ '':'' @ value @ ''|@'' @ py_str rt rate),
         w\<lparr>random_calls := Suc (random_calls w)\<rparr>) \<and>
      send_stat rt self stat value rate w =
        (if py_gt (rand_source rt (random_calls w)) rate
         then (Inr (), w\<lparr>random_calls := Suc (random_calls w)\<rparr>)
         else StatsClient_send rt self
                (prefixed self stat @ '':'' @ value @ ''|@'' @ py_str rt rate)
                (w\<lparr>random_calls := Suc (random_calls w)\<rparr>)))"
proof (intro conjI impI)
  show "incr rt self stat count rate w = send_stat rt self stat (py_str rt count @ ''|c'') rate w"
    by (simp add: incr_def)
  show "decr rt self stat count rate w =
      send_stat rt self stat (py_str rt (py_neg count) @ ''|c'') rate w"
    by (simp add: decr_def incr_def)
  show "set_stat rt self stat v rate w = send_stat rt self stat (py_str_val rt v @ ''|s'') rate w"
    by (simp add: set_stat_def)
  show "fmt_f6 (PyFloat x) = Inr (float_f6 x)" by simp
next
  assume "fmt_f6 delta = Inr s"
  then show "timing rt self stat delta rate w = send_stat rt self stat (s @ ''|ms'') rate w"
    by (simp add: timing_def)
next
  assume "\<bar>n\<bar> < 2 ^ 1024 - 2 ^ 970"
  then obtain sg m e where "int_to_float n = Inr (Finite sg m e)"
    using int_to_float_finite by blast
  then show "\<exists>t. fmt_f6 (PyInt n) = Inr t" by simp
next
  assume "2 ^ 1024 - 2 ^ 970 \<le> \<bar>k\<bar>"
  then have "fmt_f6 (PyInt k) = Inl OverflowError" by (rule fmt_f6_overflow)
  then show "timing rt self stat (PyInt k) rate w = (Inl OverflowError, w)"
    by (simp add: timing_def del: fmt_f6.simps)
next
  assume one: "py_eq rate (PyInt 1)"
  then have full: "\<not> py_lt rate (PyInt 1)" by (rule py_eq_one_not_less)
  from full show "prepare rt self stat value rate w = (Some (prefixed self stat @ '':'' @ value), w)"
    by (rule prepare_full_rate)
  from full show "send_stat rt self stat value rate w =
      StatsClient_send rt self (prefixed self stat @ '':'' @ value) w"
    by (rule send_stat_full_rate)
next
  assume "py_lt (PyInt 0) rate \<and> py_lt rate (PyInt 1)"
  then have low: "py_lt rate (PyInt 1)" by simp
  from low show "prepare rt self stat value rate w =
        (if py_gt (rand_source rt (random_calls w)) rate then None
         else Some (prefixed self stat @ '':'' @ value @ ''|@'' @ py_str rt rate),
         w\<lparr>random_calls := Suc (random_calls w)\<rparr>)"
    by (rule prepare_sampled)
  from low show "send_stat rt self stat value rate w =
        (if py_gt (rand_source rt (random_calls w)) rate
         then (Inr (), w\<lparr>random_calls := Suc (random_calls w)\<rparr>)
         else StatsClient_send rt self
                (prefixed self stat @ '':'' @ value @ ''|@'' @ py_str rt rate)
                (w\<lparr>random_calls := Suc (random_calls w)\<rparr>))"
    by (rule send_stat_sampled)
qed

text \<open>
  The theorem at the inputs of the tests: \<^verbatim>\<open>timing('foo', 100)\<close>, rate 1, and rate 0.5
  with the random source pinned to \<open>-1\<close> (sent with \<^verbatim>\<open>|@0.5\<close>) and to \<open>2\<close> (suppressed).
\<close>

theorem sampling_gate_witness:
  "fmt_f6 (PyInt 100) = Inr ''100.000000'' \<and>
   timing (test_runtime (PyInt (- 1))) (udp_client None) ''foo'' (PyInt 100) (PyFloat half) world0 =
     send_stat (test_runtime (PyInt (- 1))) (udp_client None) ''foo'' ''100.000000|ms''
       (PyFloat half) world0 \<and>
   \<bar>100 :: int\<bar> < 2 ^ 1024 - 2 ^ 970 \<and>
   (2 :: int) ^ 1024 - 2 ^ 970 \<le> \<bar>2 ^ 1024\<bar> \<and>
   timing (test_runtime (PyInt (- 1))) (udp_client None) ''foo'' (PyInt (2 ^ 1024)) (PyFloat half)
       world0 =
     (Inl OverflowError, world0) \<and>
   py_eq (PyInt 1) (PyInt 1) \<and>
   prepare (test_runtime (PyInt (- 1))) (udp_client None) ''foo'' ''1|c'' (PyInt 1) world0
     = (Some ''foo:1|c'', world0) \<and>
   py_lt (PyInt 0) (PyFloat half) \<and> py_lt (PyFloat half) (PyInt 1) \<and>
   prepare (test_runtime (PyInt (- 1))) (udp_client None) ''foo'' ''10|c'' (PyFloat half) world0
     = (Some ''foo:10|c|@0.5'', world0\<lparr>random_calls := 1\<rparr>) \<and>
   prepare (test_runtime (PyInt 2)) (udp_client None) ''foo'' ''1|c'' (PyFloat half) world0
     = (None, world0\<lparr>random_calls := 1\<rparr>)"
proof -
  have fmt: "fmt_f6 (PyInt 100) = Inr ''100.000000''"
    by (simp add: fmt_simps nat_str.simps digit_char_def)
  have small: "\<bar>100 :: int\<bar> < 2 ^ 1024 - 2 ^ 970" by simp
  have large: "(2 :: int) ^ 1024 - 2 ^ 970 \<le> \<bar>2 ^ 1024\<bar>" by simp
  show ?thesis
    using fmt small large
      sampling_gate [of "test_runtime (PyInt (- 1))" "udp_client None" "''foo''" _ "PyFloat half"
        world0 _ "PyInt 100" "''100.000000''" _ 100 "2 ^ 1024" "''10|c''"]
      sampling_gate [of "test_runtime (PyInt (- 1))" "udp_client None" "''foo''" _ "PyInt 1"
        world0 _ _ _ _ _ _ "''1|c''"]
      sampling_gate [of "test_runtime (PyInt 2)" "udp_client None" "''foo''" _ "PyFloat half"
        world0 _ _ _ _ _ _ "''1|c''"]
    by (simp add: fixture_simps)
qed

text \<open>
  The claim as stated fails at a call of \<^verbatim>\<open>timing\<close> whose value \<^verbatim>\<open>%0.6f\<close> cannot format:
  with rate 1 and the \<^verbatim>\<open>int\<close> \<open>2^1024\<close> the call raises \<^verbatim>\<open>OverflowError\<close> before
  \<^verbatim>\<open>_send_stat\<close>, and no line is produced.
\<close>

theorem timing_overflow_before_gate:
  "py_eq (PyInt 1) (PyInt 1) \<and>
   timing (test_runtime (PyInt (- 1))) (udp_client None) ''foo'' (PyInt (2 ^ 1024)) (PyInt 1) world0 =
     (Inl OverflowError, world0) \<and>
   sendto_calls world0 = []"
  by (simp add: fmt_simps timing_def dyadic_eq_def world0_def)

section \<open>Construction of the client\<close>

text \<open>
  On success the socket opened has the family of the first address resolved, and the
  client keeps that address.
\<close>

lemma init_socket_family:
  "StatsClient_init rt host port prefix maxudpsize w = (Inr cl, w') \<Longrightarrow>
   \<exists>family ty proto canon addr rest.
     resolver rt host port AF_INET SOCK_DGRAM = Inr ((family, ty, proto, canon, addr) # rest) \<and>
     sc_addr cl = addr \<and> sockets w' = sockets w @ [(family, SOCK_DGRAM)] \<and>
     sc_sock cl = length (sockets w)"
  by (auto simp: StatsClient_init_def Let_def split: sum.splits list.splits option.splits)

text \<open>
  Claim C6 against the code. Construction calls \<^verbatim>\<open>getaddrinfo\<close> exactly once, and always
  for the family \<^verbatim>\<open>AF_INET\<close>: there is no address-family preference, and no input makes
  it resolve for IPv6. In the environment of the tests the IPv6 address \<open>::1\<close> fails
  to resolve, and \<open>localhost\<close> resolves to 127.0.0.1 with an \<^verbatim>\<open>AF_INET\<close> socket.
\<close>

theorem init_resolves_ipv4_only:
  "getaddrinfo_calls (snd (StatsClient_init rt host port prefix maxudpsize w)) =
     getaddrinfo_calls w @ [(host, port, AF_INET, SOCK_DGRAM)] \<and>
   StatsClient_init (test_runtime u) ''::1'' 8125 None 512 world0 =
     (Inl GaiError, world0\<lparr>getaddrinfo_calls := [(''::1'', 8125, AF_INET, SOCK_DGRAM)]\<rparr>) \<and>
   StatsClient_init (test_runtime u) ''localhost'' 8125 None 512 world0 =
     (Inr (udp_client None),
      world0\<lparr>getaddrinfo_calls := [(''localhost'', 8125, AF_INET, SOCK_DGRAM)],
             sockets := [(AF_INET, SOCK_DGRAM)]\<rparr>)"
proof (intro conjI)
  show "getaddrinfo_calls (snd (StatsClient_init rt host port prefix maxudpsize w)) =
     getaddrinfo_calls w @ [(host, port, AF_INET, SOCK_DGRAM)]"
    by (simp add: StatsClient_init_def Let_def split: sum.split list.split option.split)
  show "StatsClient_init (test_runtime u) ''::1'' 8125 None 512 world0 =
     (Inl GaiError, world0\<lparr>getaddrinfo_calls := [(''::1'', 8125, AF_INET, SOCK_DGRAM)]\<rparr>)"
    by (simp add: StatsClient_init_def test_resolver_def fixture_simps)
  show "StatsClient_init (test_runtime u) ''localhost'' 8125 None 512 world0 =
     (Inr (udp_client None),
      world0\<lparr>getaddrinfo_calls := [(''localhost'', 8125, AF_INET, SOCK_DGRAM)],
             sockets := [(AF_INET, SOCK_DGRAM)]\<rparr>)"
    by (simp add: StatsClient_init_def test_resolver_def fixture_simps)
qed

section \<open>When the timing call returns\<close>

text \<open>
  The provisos of the timer properties in terms of the inputs: \<^verbatim>\<open>timing\<close> of a float
  returns normally when the stat name with its prefix and the text of the rate are
  ASCII and \<^verbatim>\<open>sendto\<close> returns or raises an exception that \<^verbatim>\<open>_send\<close> absorbs.
\<close>

lemma is_digit_ascii: "is_digit c \<Longrightarrow> (of_char c :: nat) < 128"
  by (auto simp: is_digit_def)

lemma digits_ascii: "list_all is_digit s \<Longrightarrow> is_ascii s"
  by (induction s) (simp_all add: is_ascii_def is_digit_ascii)

lemma is_ascii_append: "is_ascii (a @ b) = (is_ascii a \<and> is_ascii b)"
  by (simp add: is_ascii_def)

lemma float_f6_ascii: "is_ascii (float_f6 x)"
proof (cases x)
  case (Finite s m e)
  obtain sg ip fp where eq: "float_f6 (Finite s m e) = sg @ ip @ ''.'' @ fp"
    and sg: "sg = [] \<or> sg = ''-''" and ip: "list_all is_digit ip" and fp: "list_all is_digit fp"
    using float_f6_finite [of s m e] by blast
  from sg have "is_ascii sg" by (auto simp: is_ascii_def)
  moreover from ip have "is_ascii ip" by (rule digits_ascii)
  moreover from fp have "is_ascii fp" by (rule digits_ascii)
  moreover have "is_ascii ''.''" by (simp add: is_ascii_def)
  ultimately have "is_ascii (sg @ ip @ ''.'' @ fp)" by (simp only: is_ascii_append simp_thms)
  with eq Finite show ?thesis by (simp only:)
next
  case (Infinity s)
  then show ?thesis by (simp add: is_ascii_def)
next
  case NaN
  then show ?thesis by (simp add: is_ascii_def)
qed

lemma timing_returns:
  assumes "is_ascii (prefixed self stat)" and "is_ascii (py_str rt rate)"
    and "\<forall>k b. absorbed (os_sendto rt k (sc_sock self) b (sc_addr self))"
  shows "fst (timing rt self stat (PyFloat x) rate w) = Inr ()"
proof -
  have v: "is_ascii (float_f6 x @ ''|ms'')"
    by (simp add: is_ascii_append float_f6_ascii) (simp add: is_ascii_def)
  have l1: "is_ascii (prefixed self stat @ '':'' @ float_f6 x @ ''|ms'')"
    using assms(1) v by (simp add: is_ascii_def)
  have l2: "is_ascii (prefixed self stat @ '':'' @ (float_f6 x @ ''|ms'') @ ''|@'' @ py_str rt rate)"
    using assms(1,2) v by (simp add: is_ascii_def)
  show ?thesis
  proof (cases "py_lt rate (PyInt 1)")
    case True
    with l2 assms(3) show ?thesis
      by (simp add: timing_def send_stat_sampled StatsClient_send_ascii)
  next
    case False
    with l1 assms(3) show ?thesis
      by (simp add: timing_def send_stat_full_rate StatsClient_send_ascii)
  qed
qed

end
